theory Spec2Isabelle
  imports Complex_Main "HOL-Library.Sublist"
begin

section \<open>Asset generator of NexusPVR: scripts/generate\_assets.py\<close>

text \<open>
  The script draws branded raster assets with the Pillow imaging library and writes them,
  with two JSON colour sets, into a fixed directory tree.  The embedding follows the source
  function by function.  Conventions:

  \<^item> Python \<open>int\<close> is \<open>int\<close>; Python \<open>float\<close> is modelled by \<open>real\<close> (exact arithmetic, no
    rounding of intermediate results); \<open>int(v)\<close> on a float is \<open>py_int\<close>, truncation toward
    zero; \<open>a / b\<close> is real division and \<open>a // b\<close> on integers is \<open>div\<close> (both floor).
  \<^item> A Pillow image is a record of its mode, its width and height and a pixel function.
    A pixel is always stored with four bands \<open>(r, g, b, a)\<close>; an image of mode RGB keeps
    \<open>a = 255\<close> and an image of mode L keeps its value in every colour band.
  \<^item> The bounds of an image are data: \<open>getpixel\<close> answers \<open>None\<close> outside them, where
    Pillow raises IndexError.
  \<^item> Pillow's rasteriser is modelled by the geometric shape it approximates: a drawing call
    paints the pixels whose coordinates lie in the closed shape.  At the rim of a shape
    Pillow's choice may differ by a pixel; no property below rests on a rim pixel.
  \<^item> Pillow's Gaussian blur and Lanczos resampling are parameters of the model (the record
    \<open>pillow\<close>): every property holds for every implementation of them.
  \<^item> A path is the list of its components: \<open>os.path.join\<close> appends and
    \<open>os.path.dirname\<close> drops the last component.
  \<^item> The file system and the log of files opened for reading are the state \<open>world\<close>,
    passed through every function that writes or reads.  The lines printed to standard
    output are not part of the model.
  \<^item> A leading underscore of a Python name is dropped (\<open>_draw_crt_on\<close> is
    \<open>draw_crt_on\<close>), and the parameter \<open>size\<close> is written \<open>sz\<close>.
\<close>

subsection \<open>Numbers, colours and images\<close>

type_synonym rgb = "int \<times> int \<times> int"
type_synonym frac_rgb = "real \<times> real \<times> real"
type_synonym pixel = "int \<times> int \<times> int \<times> int"

datatype mode = ModeL | ModeRGB | ModeRGBA

record image =
  im_mode :: mode
  im_width :: int
  im_height :: int
  im_px :: "int \<Rightarrow> int \<Rightarrow> pixel"

text \<open>Python's \<open>int(v)\<close> for a float \<open>v\<close>: truncation toward zero.\<close>

definition py_int :: "real \<Rightarrow> int" where
  "py_int v = (if 0 \<le> v then \<lfloor>v\<rfloor> else \<lceil>v\<rceil>)"

text \<open>Pillow stores a band in eight bits and clips an integer written to it.\<close>

definition clip8 :: "int \<Rightarrow> int" where
  "clip8 v = (if v < 0 then 0 else if 255 < v then 255 else v)"

definition valid_rgb :: "rgb \<Rightarrow> bool" where
  "valid_rgb c = (case c of (r, g, b) \<Rightarrow>
     0 \<le> r \<and> r \<le> 255 \<and> 0 \<le> g \<and> g \<le> 255 \<and> 0 \<le> b \<and> b \<le> 255)"

text \<open>The ink of a three-band colour tuple: fully opaque.\<close>

definition opaque :: "rgb \<Rightarrow> pixel" where
  "opaque c = (case c of (r, g, b) \<Rightarrow> (clip8 r, clip8 g, clip8 b, 255))"

definition in_bounds :: "image \<Rightarrow> int \<Rightarrow> int \<Rightarrow> bool" where
  "in_bounds img x y = (0 \<le> x \<and> x < im_width img \<and> 0 \<le> y \<and> y < im_height img)"

text \<open>\<open>Image.new(mode, (width, height), fill)\<close>.\<close>

definition new_image :: "mode \<Rightarrow> int \<Rightarrow> int \<Rightarrow> pixel \<Rightarrow> image" where
  "new_image m width height fill =
     \<lparr>im_mode = m, im_width = width, im_height = height, im_px = (\<lambda>x y. fill)\<rparr>"

definition getpixel :: "image \<Rightarrow> int \<Rightarrow> int \<Rightarrow> pixel option" where
  "getpixel img x y = (if in_bounds img x y then Some (im_px img x y) else None)"

text \<open>The ink of a one-band value, as drawn on a mask of mode L.\<close>

definition lum :: "int \<Rightarrow> pixel" where
  "lum v = (clip8 v, clip8 v, clip8 v, 255)"

text \<open>
  The pixel of another mode's image as a pixel of mode \<open>m\<close>: RGB drops the alpha band,
  L takes the ITU-R 601-2 luma.
\<close>

definition to_mode :: "mode \<Rightarrow> pixel \<Rightarrow> pixel" where
  "to_mode m p = (case p of (r, g, b, a) \<Rightarrow>
     (case m of
        ModeRGBA \<Rightarrow> (r, g, b, a)
      | ModeRGB \<Rightarrow> (r, g, b, 255)
      | ModeL \<Rightarrow> lum ((r * 19595 + g * 38470 + b * 7471 + 32768) div 65536)))"

text \<open>\<open>img.convert(mode)\<close>.\<close>

definition convert_mode :: "mode \<Rightarrow> image \<Rightarrow> image" where
  "convert_mode m img = img\<lparr>im_mode := m, im_px := (\<lambda>x y. to_mode m (im_px img x y))\<rparr>"

subsection \<open>Pillow: shapes and drawing\<close>

type_synonym point = "real \<times> real"
type_synonym box = "real \<times> real \<times> real \<times> real"

text \<open>
  The calls of \<open>ImageDraw\<close> the script makes: \<open>rectangle\<close>, \<open>rounded_rectangle\<close> with a
  fill, \<open>rounded_rectangle\<close> with an outline and its width, \<open>ellipse\<close>, \<open>polygon\<close> and
  \<open>line\<close> with its width.
\<close>

datatype shape =
    Rectangle box
  | RoundedRectangle box int
  | RoundedOutline box int int
  | Ellipse box
  | Polygon "point list"
  | Line point point int

definition covers_rectangle :: "box \<Rightarrow> real \<Rightarrow> real \<Rightarrow> bool" where
  "covers_rectangle bx x y = (case bx of (x0, y0, x1, y1) \<Rightarrow>
     x0 \<le> x \<and> x \<le> x1 \<and> y0 \<le> y \<and> y \<le> y1)"

definition covers_rounded :: "box \<Rightarrow> real \<Rightarrow> real \<Rightarrow> real \<Rightarrow> bool" where
  "covers_rounded bx radius x y = (case bx of (x0, y0, x1, y1) \<Rightarrow>
     let r = max 0 (min radius (min ((x1 - x0) / 2) ((y1 - y0) / 2)));
         dx = max 0 (max (x0 + r - x) (x - (x1 - r)));
         dy = max 0 (max (y0 + r - y) (y - (y1 - r)))
     in covers_rectangle bx x y \<and> dx\<^sup>2 + dy\<^sup>2 \<le> r\<^sup>2)"

definition covers_ellipse :: "box \<Rightarrow> real \<Rightarrow> real \<Rightarrow> bool" where
  "covers_ellipse bx x y = (case bx of (x0, y0, x1, y1) \<Rightarrow>
     let cx = (x0 + x1) / 2; cy = (y0 + y1) / 2; rx = (x1 - x0) / 2; ry = (y1 - y0) / 2
     in covers_rectangle bx x y \<and> ((x - cx) * ry)\<^sup>2 + ((y - cy) * rx)\<^sup>2 \<le> (rx * ry)\<^sup>2)"

text \<open>The even-odd rule: an edge counts when the ray from \<open>(x, y)\<close> to the right crosses it.\<close>

definition crosses :: "real \<Rightarrow> real \<Rightarrow> point \<times> point \<Rightarrow> bool" where
  "crosses x y e = (case e of ((x1, y1), (x2, y2)) \<Rightarrow>
     (y < y1) \<noteq> (y < y2) \<and> x < x1 + (x2 - x1) * (y - y1) / (y2 - y1))"

definition covers_polygon :: "point list \<Rightarrow> real \<Rightarrow> real \<Rightarrow> bool" where
  "covers_polygon pts x y = odd (length (filter (crosses x y) (zip pts (rotate1 pts))))"

definition covers_line :: "point \<Rightarrow> point \<Rightarrow> int \<Rightarrow> real \<Rightarrow> real \<Rightarrow> bool" where
  "covers_line p q w x y = (case p of (px, py) \<Rightarrow> case q of (qx, qy) \<Rightarrow>
     let dx = qx - px; dy = qy - py; len2 = dx\<^sup>2 + dy\<^sup>2;
         along = (x - px) * dx + (y - py) * dy;
         across = (x - px) * dy - (y - py) * dx;
         wd = real_of_int (max w 1)
     in 0 \<le> along \<and> along \<le> len2 \<and> 4 * across\<^sup>2 \<le> wd\<^sup>2 * max len2 1)"

fun covers :: "shape \<Rightarrow> real \<Rightarrow> real \<Rightarrow> bool" where
  "covers (Rectangle bx) x y = covers_rectangle bx x y"
| "covers (RoundedRectangle bx radius) x y = covers_rounded bx (real_of_int radius) x y"
| "covers (RoundedOutline bx radius w) x y =
     (case bx of (x0, y0, x1, y1) \<Rightarrow>
        covers_rounded bx (real_of_int radius) x y \<and>
        \<not> covers_rounded (x0 + real_of_int w, y0 + real_of_int w, x1 - real_of_int w, y1 - real_of_int w)
            (real_of_int (radius - w)) x y)"
| "covers (Ellipse bx) x y = covers_ellipse bx x y"
| "covers (Polygon pts) x y = covers_polygon pts x y"
| "covers (Line p q w) x y = covers_line p q w x y"

text \<open>One drawing call on the image a \<open>Draw\<close> object is bound to.\<close>

definition draw_shape :: "image \<Rightarrow> shape \<Rightarrow> pixel \<Rightarrow> image" where
  "draw_shape img sh fill =
     img\<lparr>im_px := (\<lambda>x y. if in_bounds img x y \<and> covers sh (real_of_int x) (real_of_int y)
                          then to_mode (im_mode img) fill else im_px img x y)\<rparr>"

subsection \<open>Pillow: pasting and compositing\<close>

text \<open>Pillow's division by 255 with rounding, and its blend of two bands by a mask value.\<close>

definition div255 :: "int \<Rightarrow> int" where
  "div255 v = (let t = v + 128 in (t div 256 + t) div 256)"

definition blend8 :: "int \<Rightarrow> int \<Rightarrow> int \<Rightarrow> int" where
  "blend8 mk in1 in2 = div255 (in1 * (255 - mk) + in2 * mk)"

definition blend_px :: "int \<Rightarrow> pixel \<Rightarrow> pixel \<Rightarrow> pixel" where
  "blend_px mk p q = (case p of (r1, g1, b1, a1) \<Rightarrow> case q of (r2, g2, b2, a2) \<Rightarrow>
     (blend8 mk r1 r2, blend8 mk g1 g2, blend8 mk b1 b2, blend8 mk a1 a2))"

text \<open>The value a mask image gives a pixel: its alpha band if it has one, else its band.\<close>

definition mask_value :: "image \<Rightarrow> int \<Rightarrow> int \<Rightarrow> int" where
  "mask_value msk x y = (case im_px msk x y of (r, g, b, a) \<Rightarrow>
     if im_mode msk = ModeRGBA then a else r)"

text \<open>\<open>dst.paste(src, (ox, oy), mask)\<close>; without a mask the region is overwritten.\<close>

definition paste :: "image \<Rightarrow> image \<Rightarrow> int \<times> int \<Rightarrow> image option \<Rightarrow> image" where
  "paste dst src pos msk = (case pos of (ox, oy) \<Rightarrow>
     dst\<lparr>im_px := (\<lambda>x y.
        if in_bounds dst x y \<and> in_bounds src (x - ox) (y - oy)
        then (case msk of
                None \<Rightarrow> to_mode (im_mode dst) (im_px src (x - ox) (y - oy))
              | Some m \<Rightarrow> blend_px (mask_value m (x - ox) (y - oy)) (im_px dst x y)
                            (to_mode (im_mode dst) (im_px src (x - ox) (y - oy))))
        else im_px dst x y)\<rparr>)"

text \<open>\<open>Image.alpha_composite(dst, src)\<close>, pixel by pixel, in Pillow's integer arithmetic.\<close>

definition composite_px :: "pixel \<Rightarrow> pixel \<Rightarrow> pixel" where
  "composite_px d s = (case d of (dr, dg, db, da) \<Rightarrow> case s of (sr, sg, sb, sa) \<Rightarrow>
     if sa = 0 then d
     else let blend = da * (255 - sa);
              outa255 = sa * 255 + blend;
              coef1 = sa * 255 * 255 * 128 div outa255;
              coef2 = 255 * 128 - coef1;
              shift = (\<lambda>t. (t div 256 + t) div 256)
          in (shift (sr * coef1 + dr * coef2 + 128 * 128) div 128,
              shift (sg * coef1 + dg * coef2 + 128 * 128) div 128,
              shift (sb * coef1 + db * coef2 + 128 * 128) div 128,
              shift (outa255 + 128)))"

definition alpha_composite :: "image \<Rightarrow> image \<Rightarrow> image" where
  "alpha_composite dst src =
     dst\<lparr>im_px := (\<lambda>x y. composite_px (im_px dst x y) (im_px src x y))\<rparr>"

text \<open>The two Pillow operations the model does not compute.\<close>

record pillow =
  gaussian_blur :: "int \<Rightarrow> image \<Rightarrow> image"
  resize_lanczos :: "image \<Rightarrow> int \<times> int \<Rightarrow> image"

subsection \<open>Brand palettes (lines 28--55)\<close>

record brand =
  name :: string
  assets_dir :: "string list"
  gradient_center :: rgb
  gradient_edge :: rgb
  recording_dot :: rgb
  accent_rgb :: "frac_rgb option"
  launch_bg_rgb :: frac_rgb

definition nexuspvr_brand :: brand where
  "nexuspvr_brand =
     \<lparr>name = ''NexusPVR'',
      assets_dir = [''NexusPVR'', ''Assets.xcassets''],
      gradient_center = (42, 107, 153),
      gradient_edge = (15, 35, 60),
      recording_dot = (233, 30, 99),
      accent_rgb = None,
      launch_bg_rgb = (0.059, 0.059, 0.059)\<rparr>"

definition dispatcherpvr_brand :: brand where
  "dispatcherpvr_brand =
     \<lparr>name = ''DispatcherPVR'',
      assets_dir = [''DispatcherPVR'', ''Assets.xcassets''],
      gradient_center = (55, 130, 115),
      gradient_edge = (12, 38, 33),
      recording_dot = (217, 72, 72),
      accent_rgb = Some (0.263, 0.561, 0.498),
      launch_bg_rgb = (0.071, 0.071, 0.078)\<rparr>"

text \<open>The dictionary \<open>BRANDS\<close>, in insertion order (the order \<open>for key in BRANDS\<close> visits).\<close>

definition BRANDS :: "(string \<times> brand) list" where
  "BRANDS = [(''nexuspvr'', nexuspvr_brand), (''dispatcherpvr'', dispatcherpvr_brand)]"

subsection \<open>Drawing helpers: the radial gradient (lines 61--76)\<close>

text \<open>
  \<open>ratio = min(dist / max_dist, 1.0) ** 0.8\<close> at pixel \<open>(x, y)\<close>, lines 65, 66, 70 and 71,
  as an exact real number.  The code computes it in floating point, so its value may
  differ from this one by rounding: at pixel \<open>(31, 31)\<close> of a 64 by 64 gradient the exact
  ratio is \<open>1 / 16\<close> and the float is just below it.  Where the exact interpolation
  is an integer, the channel the code truncates may then be one less than \<open>gradient_rgb\<close>
  gives.  The properties of the gradient below are those that hold for both: the centre
  and the corner, where the float arithmetic is exact (ratio 0 and ratio 1), the bounds
  of every channel, and the distance of at most one unit from the exact interpolation.
\<close>

definition gradient_ratio :: "int \<Rightarrow> int \<Rightarrow> int \<Rightarrow> int \<Rightarrow> real" where
  "gradient_ratio width height x y =
     (let cx = real_of_int width / 2; cy = real_of_int height / 2;
          max_dist = sqrt ((real_of_int width / 2)\<^sup>2 + (real_of_int height / 2)\<^sup>2);
          dist = sqrt ((real_of_int x - cx)\<^sup>2 + (real_of_int y - cy)\<^sup>2)
      in (min (dist / max_dist) 1) powr 0.8)"

text \<open>The tuple \<open>(r, g, b)\<close> of lines 72--74.\<close>

definition gradient_rgb :: "int \<Rightarrow> int \<Rightarrow> rgb \<Rightarrow> rgb \<Rightarrow> int \<Rightarrow> int \<Rightarrow> rgb" where
  "gradient_rgb width height center_color edge_color x y =
     (case center_color of (c0, c1, c2) \<Rightarrow> case edge_color of (e0, e1, e2) \<Rightarrow>
        let ratio = gradient_ratio width height x y;
            r = py_int (real_of_int c0 + real_of_int (e0 - c0) * ratio);
            g = py_int (real_of_int c1 + real_of_int (e1 - c1) * ratio);
            b = py_int (real_of_int c2 + real_of_int (e2 - c2) * ratio)
        in (r, g, b))"

text \<open>
  The two loops assign every pixel of the new image once, so the result is the new
  (black) image with each pixel inside the bounds replaced.
\<close>

definition create_radial_gradient :: "int \<Rightarrow> int \<Rightarrow> rgb \<Rightarrow> rgb \<Rightarrow> image" where
  "create_radial_gradient width height center_color edge_color =
     (let img = new_image ModeRGB width height (0, 0, 0, 255)
      in img\<lparr>im_px := (\<lambda>x y. if in_bounds img x y
                   then opaque (gradient_rgb width height center_color edge_color x y)
                   else im_px img x y)\<rparr>)"

text \<open>\<open>tuple(int(c * 255) for c in rgb)\<close>, lines 145, 278, 431 and 555.\<close>

definition scale255 :: "frac_rgb \<Rightarrow> rgb" where
  "scale255 c = (case c of (r, g, b) \<Rightarrow> (py_int (r * 255), py_int (g * 255), py_int (b * 255)))"

subsection \<open>Drawing helpers: play button and recording dot (lines 79--96)\<close>

definition draw_play_button :: "image \<Rightarrow> real \<Rightarrow> real \<Rightarrow> real \<Rightarrow> pixel \<Rightarrow> image" where
  "draw_play_button draw cx cy scale color =
     (let s = 70 * scale;
          px = cx - s * 0.15;
          points = [(px - s * 0.45, cy - s * 0.6),
                    (px - s * 0.45, cy + s * 0.6),
                    (px + s * 0.55, cy)]
      in draw_shape draw (Polygon points) color)"

definition draw_recording_dot :: "image \<Rightarrow> real \<Rightarrow> real \<Rightarrow> real \<Rightarrow> rgb \<Rightarrow> image" where
  "draw_recording_dot draw cx cy scale dot_color =
     (let r = 12 * scale;
          dx = cx + 55 * scale;
          dy = cy - 45 * scale
      in draw_shape draw (Ellipse (dx - r, dy - r, dx + r, dy + r)) (opaque dot_color))"

subsection \<open>Asset generators of the gradient theme (lines 103--197)\<close>

definition create_app_icon :: "int \<Rightarrow> brand \<Rightarrow> image" where
  "create_app_icon sz brand =
     (let bg = create_radial_gradient sz sz (gradient_center brand) (gradient_edge brand);
          msk = draw_shape (new_image ModeL sz sz (lum 0))
                  (RoundedRectangle (0, 0, real_of_int sz, real_of_int sz)
                     (py_int (real_of_int sz * 0.22))) (lum 255);
          rounded = paste (new_image ModeRGB sz sz (opaque (gradient_edge brand)))
                      bg (0, 0) (Some msk);
          overlay = new_image ModeRGBA sz sz (0, 0, 0, 0);
          s = real_of_int sz / 1024.0 * 2.5;
          overlay1 = draw_play_button overlay (real_of_int sz / 2) (real_of_int sz / 2) s
                       (255, 255, 255, 255);
          overlay2 = draw_recording_dot overlay1 (real_of_int sz / 2) (real_of_int sz / 2) s
                       (recording_dot brand);
          result = paste (new_image ModeRGBA sz sz (0, 0, 0, 0)) rounded (0, 0) None
      in convert_mode ModeRGB (alpha_composite result overlay2))"

definition create_tvos_back :: "int \<Rightarrow> int \<Rightarrow> brand \<Rightarrow> image" where
  "create_tvos_back width height brand =
     create_radial_gradient width height (gradient_center brand) (gradient_edge brand)"

definition create_tvos_front :: "int \<Rightarrow> int \<Rightarrow> brand \<Rightarrow> image" where
  "create_tvos_front width height brand =
     (let img = new_image ModeRGBA width height (0, 0, 0, 0);
          s = real_of_int width / 400;
          img1 = draw_play_button img (real_of_int width / 2) (real_of_int height / 2) s
                   (255, 255, 255, 255)
      in draw_recording_dot img1 (real_of_int width / 2) (real_of_int height / 2) s
           (recording_dot brand))"

definition create_tvos_middle :: "int \<Rightarrow> int \<Rightarrow> image" where
  "create_tvos_middle width height = new_image ModeRGBA width height (0, 0, 0, 0)"

definition create_shelf_image :: "pillow \<Rightarrow> int \<Rightarrow> int \<Rightarrow> brand \<Rightarrow> image" where
  "create_shelf_image P width height brand =
     (let bg_color = scale255 (launch_bg_rgb brand);
          img = new_image ModeRGB width height (opaque bg_color);
          icon_h = py_int (real_of_int height * 0.6);
          icon_w = icon_h;
          icon_bg = create_radial_gradient icon_w icon_h (gradient_center brand) (gradient_edge brand);
          msk = draw_shape (new_image ModeL icon_w icon_h (lum 0))
                  (RoundedRectangle (0, 0, real_of_int icon_w, real_of_int icon_h)
                     (py_int (real_of_int icon_h * 0.15))) (lum 255);
          glow_size = py_int (real_of_int icon_h * 1.4);
          glow0 = new_image ModeRGBA glow_size glow_size (0, 0, 0, 0);
          glow1 = (case gradient_center brand of (gc0, gc1, gc2) \<Rightarrow>
                     draw_shape glow0 (Ellipse (0, 0, real_of_int glow_size, real_of_int glow_size))
                       (clip8 gc0, clip8 gc1, clip8 gc2, 30));
          glow = gaussian_blur P (glow_size div 4) glow1;
          img_rgba = convert_mode ModeRGBA img;
          glow_layer = paste (new_image ModeRGBA width height (0, 0, 0, 0)) glow
                         ((width - glow_size) div 2, (height - glow_size) div 2) None;
          img_rgba1 = alpha_composite img_rgba glow_layer;
          ix = (width - icon_w) div 2;
          iy = (height - icon_h) div 2;
          img_rgba2 = paste img_rgba1 icon_bg (ix, iy) (Some msk);
          s = real_of_int icon_h / 400;
          img_rgba3 = draw_play_button img_rgba2 (real_of_int width / 2) (real_of_int height / 2) s
                        (255, 255, 255, 255);
          img_rgba4 = draw_recording_dot img_rgba3 (real_of_int width / 2) (real_of_int height / 2) s
                        (recording_dot brand)
      in convert_mode ModeRGB img_rgba4)"

definition create_launch_logo :: "int \<Rightarrow> brand \<Rightarrow> image" where
  "create_launch_logo sz brand =
     (let bg = create_radial_gradient sz sz (gradient_center brand) (gradient_edge brand);
          msk = draw_shape (new_image ModeL sz sz (lum 0))
                  (RoundedRectangle (0, 0, real_of_int sz, real_of_int sz)
                     (py_int (real_of_int sz * 0.22))) (lum 255);
          result = paste (new_image ModeRGBA sz sz (0, 0, 0, 0)) bg (0, 0) (Some msk);
          s = real_of_int sz / 400;
          result1 = draw_play_button result (real_of_int sz / 2) (real_of_int sz / 2) s
                      (255, 255, 255, 255)
      in draw_recording_dot result1 (real_of_int sz / 2) (real_of_int sz / 2) s
           (recording_dot brand))"

subsection \<open>CRT television theme (lines 302--436)\<close>

definition CRT_BG :: rgb where "CRT_BG = (14, 31, 21)"
definition CRT_TV_BODY :: rgb where "CRT_TV_BODY = (30, 48, 37)"
definition CRT_SCREEN :: rgb where "CRT_SCREEN = (10, 26, 16)"
definition CRT_PLAY :: rgb where "CRT_PLAY = (100, 255, 150)"
definition CRT_REC :: rgb where "CRT_REC = (229, 57, 53)"
definition CRT_ANTENNA :: rgb where "CRT_ANTENNA = (58, 90, 58)"
definition CRT_LEG :: rgb where "CRT_LEG = (42, 74, 42)"
definition CRT_KNOB :: rgb where "CRT_KNOB = (50, 80, 50)"
definition CRT_SCANLINE :: rgb where "CRT_SCANLINE = (20, 50, 30)"
definition CRT_BEZEL :: rgb where "CRT_BEZEL = (24, 40, 30)"

text \<open>
  \<open>range(start, stop, step)\<close> for a positive step; the one call (line 342) passes
  \<open>max(int(4 * s), 2)\<close>.
\<close>

definition py_range :: "int \<Rightarrow> int \<Rightarrow> int \<Rightarrow> int list" where
  "py_range start stop step =
     map (\<lambda>k. start + int k * step) [0 ..< nat ((stop - start + step - 1) div step)]"

subsection \<open>CRT television: the radii of the recording dot and the knobs (lines 356--374)\<close>

text \<open>\<open>rec_r\<close> as line 362 uses it, after lines 357--359.\<close>

definition crt_rec_r :: "real \<Rightarrow> int" where
  "crt_rec_r s =
     (let rec_r = max (py_int (3 * s)) 1
      in if py_int (200 * s) \<le> 32 then max (py_int (2 * s)) 1 else rec_r)"

text \<open>\<open>kr\<close> as lines 373 and 374 use it, after lines 370--372.\<close>

definition crt_kr :: "real \<Rightarrow> int" where
  "crt_kr s =
     (let kr = max (py_int (4 * s)) 2
      in if py_int (200 * s) \<le> 32 then max (py_int (3 * s)) 1 else kr)"

text \<open>\<open>_draw_crt_on(draw, width, height, s, include_bg)\<close>, lines 314--394.\<close>

definition draw_crt_on :: "image \<Rightarrow> int \<Rightarrow> int \<Rightarrow> real \<Rightarrow> bool \<Rightarrow> image" where
  "draw_crt_on draw width height s include_bg =
     (let ox = (width - py_int (200 * s)) div 2;
          oy = (height - py_int (200 * s)) div 2;
          d0 = (if include_bg
                then draw_shape draw (Rectangle (0, 0, real_of_int width, real_of_int height))
                       (opaque CRT_BG)
                else draw);
          bx1 = ox + py_int (30 * s); by1 = oy + py_int (45 * s);
          bx2 = ox + py_int (170 * s); by2 = oy + py_int (155 * s);
          d1 = draw_shape d0
                 (RoundedRectangle (real_of_int bx1, real_of_int by1, real_of_int bx2, real_of_int by2)
                    (py_int (12 * s)))
                 (opaque CRT_TV_BODY);
          d2 = draw_shape d1
                 (RoundedOutline (real_of_int (bx1 + py_int (2 * s)), real_of_int (by1 + py_int (2 * s)),
                                  real_of_int (bx2 - py_int (2 * s)), real_of_int (by2 - py_int (2 * s)))
                    (py_int (10 * s)) (max (py_int (1.5 * s)) 1))
                 (opaque CRT_BEZEL);
          sx1 = ox + py_int (40 * s); sy1 = oy + py_int (55 * s);
          sx2 = ox + py_int (145 * s); sy2 = oy + py_int (135 * s);
          d3 = draw_shape d2
                 (RoundedRectangle (real_of_int sx1, real_of_int sy1, real_of_int sx2, real_of_int sy2)
                    (py_int (8 * s)))
                 (opaque CRT_SCREEN);
          d4 = fold (\<lambda>y_line d.
                       draw_shape d (Line (real_of_int sx1, real_of_int y_line)
                                          (real_of_int sx2, real_of_int y_line) 1)
                         (opaque CRT_SCANLINE))
                 (py_range sy1 sy2 (max (py_int (4 * s)) 2)) d3;
          scx = real_of_int (sx1 + sx2) / 2;
          scy = real_of_int (sy1 + sy2) / 2;
          ts = 18 * s;
          points = [(scx - ts * 0.4, scy - ts * 0.6),
                    (scx - ts * 0.4, scy + ts * 0.6),
                    (scx + ts * 0.6, scy)];
          d5 = draw_shape d4 (Polygon points) (opaque CRT_PLAY);
          rec_r = crt_rec_r s;
          rec_cx = ox + py_int (155 * s);
          rec_cy = oy + py_int (60 * s);
          d6 = draw_shape d5
                 (Ellipse (real_of_int (rec_cx - rec_r), real_of_int (rec_cy - rec_r),
                           real_of_int (rec_cx + rec_r), real_of_int (rec_cy + rec_r)))
                 (opaque CRT_REC);
          k1x = ox + py_int (155 * s); k1y = oy + py_int (110 * s);
          k2x = ox + py_int (155 * s); k2y = oy + py_int (130 * s);
          kr = crt_kr s;
          d7 = draw_shape d6
                 (Ellipse (real_of_int (k1x - kr), real_of_int (k1y - kr),
                           real_of_int (k1x + kr), real_of_int (k1y + kr)))
                 (opaque CRT_KNOB);
          d8 = draw_shape d7
                 (Ellipse (real_of_int (k2x - kr), real_of_int (k2y - kr),
                           real_of_int (k2x + kr), real_of_int (k2y + kr)))
                 (opaque CRT_KNOB);
          aw = max (py_int (2.5 * s)) 1;
          ant_bl = (ox + py_int (70 * s), oy + py_int (45 * s));
          ant_br = (ox + py_int (130 * s), oy + py_int (45 * s));
          ant_tl = (ox + py_int (50 * s), oy + py_int (18 * s));
          ant_tr = (ox + py_int (150 * s), oy + py_int (18 * s));
          ipt = (\<lambda>p. (real_of_int (fst p), real_of_int (snd p)));
          d9 = draw_shape d8 (Line (ipt ant_bl) (ipt ant_tl) aw) (opaque CRT_ANTENNA);
          d10 = draw_shape d9 (Line (ipt ant_br) (ipt ant_tr) aw) (opaque CRT_ANTENNA);
          tip_r = max (py_int (2.5 * s)) 1;
          d11 = fold (\<lambda>t d.
                        draw_shape d
                          (Ellipse (real_of_int (fst t - tip_r), real_of_int (snd t - tip_r),
                                    real_of_int (fst t + tip_r), real_of_int (snd t + tip_r)))
                          (opaque CRT_ANTENNA))
                  [ant_tl, ant_tr] d10;
          lw = max (py_int (3 * s)) 1;
          d12 = draw_shape d11
                  (Line (ipt (ox + py_int (55 * s), oy + py_int (155 * s)))
                        (ipt (ox + py_int (45 * s), oy + py_int (175 * s))) lw)
                  (opaque CRT_LEG);
          d13 = draw_shape d12
                  (Line (ipt (ox + py_int (145 * s), oy + py_int (155 * s)))
                        (ipt (ox + py_int (155 * s), oy + py_int (175 * s))) lw)
                  (opaque CRT_LEG);
          fw = max (py_int (4 * s)) 2;
          d14 = draw_shape d13
                  (Line (ipt (ox + py_int (38 * s), oy + py_int (175 * s)))
                        (ipt (ox + py_int (52 * s), oy + py_int (175 * s))) fw)
                  (opaque CRT_LEG)
      in draw_shape d14
           (Line (ipt (ox + py_int (148 * s), oy + py_int (175 * s)))
                 (ipt (ox + py_int (162 * s), oy + py_int (175 * s))) fw)
           (opaque CRT_LEG))"

definition create_crt_icon :: "int \<Rightarrow> brand \<Rightarrow> image" where
  "create_crt_icon sz brand =
     (let img = new_image ModeRGB sz sz (opaque CRT_BG);
          s = real_of_int sz / 200.0
      in draw_crt_on img sz sz s True)"

definition create_crt_tvos_back :: "int \<Rightarrow> int \<Rightarrow> brand \<Rightarrow> image" where
  "create_crt_tvos_back width height brand = new_image ModeRGB width height (opaque CRT_BG)"

definition create_crt_tvos_front :: "int \<Rightarrow> int \<Rightarrow> brand \<Rightarrow> image" where
  "create_crt_tvos_front width height brand =
     (let img = new_image ModeRGBA width height (0, 0, 0, 0);
          s = real_of_int (min width height) / 200.0
      in draw_crt_on img width height s False)"

definition create_crt_launch_logo :: "int \<Rightarrow> brand \<Rightarrow> image" where
  "create_crt_launch_logo sz brand =
     (let img = new_image ModeRGBA sz sz (0, 0, 0, 0);
          s = real_of_int sz / 200.0
      in draw_crt_on img sz sz s False)"

definition create_crt_shelf_image :: "int \<Rightarrow> int \<Rightarrow> brand \<Rightarrow> image" where
  "create_crt_shelf_image width height brand =
     (let bg_color = scale255 (launch_bg_rgb brand);
          img = new_image ModeRGB width height (opaque bg_color);
          s = real_of_int (min width height) / 200.0 * 0.6
      in draw_crt_on img width height s True)"

subsection \<open>The file system\<close>

type_synonym path = "string list"

datatype content = Png image | Text string

text \<open>
  \<open>files\<close> are the regular files with their contents (a PNG file is identified with the
  image it encodes), \<open>dirs\<close> the directories, \<open>opened\<close> the files opened for reading, in
  order, and \<open>script_file\<close> the absolute path \<open>os.path.abspath(__file__)\<close>.
\<close>

record world =
  files :: "path \<rightharpoonup> content"
  dirs :: "path set"
  opened :: "path list"
  script_file :: path

datatype error = KeyError | FileNotFoundError | UnidentifiedImageError | ZeroDivisionError

definition dirname :: "path \<Rightarrow> path" where
  "dirname p = butlast p"

text \<open>\<open>os.makedirs(d, exist_ok=True)\<close>: the directory and every ancestor of it exist afterwards.\<close>

definition makedirs :: "path \<Rightarrow> world \<Rightarrow> world" where
  "makedirs d w = w\<lparr>dirs := dirs w \<union> set (prefixes d)\<rparr>"

text \<open>Opening \<open>p\<close> for writing and writing \<open>c\<close>: the file is created or replaced.\<close>

definition write_file :: "path \<Rightarrow> content \<Rightarrow> world \<Rightarrow> world" where
  "write_file p c w = w\<lparr>files := (files w)(p \<mapsto> c)\<rparr>"

text \<open>\<open>SCRIPT_DIR\<close> and \<open>VHS_SOURCE\<close>, lines 204 and 205.\<close>

definition SCRIPT_DIR :: "world \<Rightarrow> path" where
  "SCRIPT_DIR w = dirname (script_file w)"

definition VHS_SOURCE :: "world \<Rightarrow> path" where
  "VHS_SOURCE w = SCRIPT_DIR w @ [''vhs_source.png'']"

subsection \<open>VHS cassette theme (lines 208--295)\<close>

text \<open>
  \<open>Image.open(VHS_SOURCE).convert("RGBA")\<close>: a missing file and a file that is no image
  raise; a file that opens is logged.
\<close>

definition load_vhs_source :: "world \<Rightarrow> error + image \<times> world" where
  "load_vhs_source w =
     (case files w (VHS_SOURCE w) of
        None \<Rightarrow> Inl FileNotFoundError
      | Some (Text t) \<Rightarrow> Inl UnidentifiedImageError
      | Some (Png img) \<Rightarrow>
          Inr (convert_mode ModeRGBA img, w\<lparr>opened := opened w @ [VHS_SOURCE w]\<rparr>))"

text \<open>The local function \<open>rot\<close> of lines 236--238.\<close>

definition rot :: "point \<Rightarrow> real \<Rightarrow> real \<Rightarrow> real \<Rightarrow> point" where
  "rot p cx cy a = (case p of (px, py) \<Rightarrow>
     let dx = px - cx; dy = py - cy
     in (cx + dx * cos a - dy * sin a, cy + dx * sin a + dy * cos a))"

definition place_vhs_on_canvas ::
    "pillow \<Rightarrow> world \<Rightarrow> int \<Rightarrow> int \<Rightarrow> real \<Rightarrow> bool \<Rightarrow> error + image \<times> world" where
  "place_vhs_on_canvas P w canvas_w canvas_h vhs_fraction with_triangle =
     (case load_vhs_source w of
        Inl e \<Rightarrow> Inl e
      | Inr (vhs, w1) \<Rightarrow>
          if im_width vhs = 0 \<or> im_height vhs = 0 then Inl ZeroDivisionError
          else
            let canvas = new_image ModeRGBA canvas_w canvas_h (0, 0, 0, 0);
                margin = py_int (real_of_int (min canvas_w canvas_h) * (1 - vhs_fraction) / 2);
                avail_w = canvas_w - 2 * margin;
                avail_h = canvas_h - 2 * margin;
                scale = min (real_of_int avail_w / real_of_int (im_width vhs))
                            (real_of_int avail_h / real_of_int (im_height vhs));
                new_w = py_int (real_of_int (im_width vhs) * scale);
                new_h = py_int (real_of_int (im_height vhs) * scale);
                vhs_scaled = resize_lanczos P vhs (new_w, new_h);
                paste_x = (canvas_w - new_w) div 2;
                paste_y = (canvas_h - new_h) div 2;
                canvas1 = paste canvas vhs_scaled (paste_x, paste_y) (Some vhs_scaled);
                canvas2 =
                  (if with_triangle
                   then let tri_cx = paste_x + py_int (real_of_int new_w * 0.516);
                            tri_cy = paste_y + py_int (real_of_int new_h * 0.422);
                            tri_size = py_int (real_of_int new_h * 0.055);
                            angle = 22 * pi / 180;
                            pts = [(real_of_int tri_cx - real_of_int tri_size * 0.5,
                                    real_of_int tri_cy - real_of_int tri_size * 0.7),
                                   (real_of_int tri_cx - real_of_int tri_size * 0.5,
                                    real_of_int tri_cy + real_of_int tri_size * 0.7),
                                   (real_of_int tri_cx + real_of_int tri_size * 0.8,
                                    real_of_int tri_cy)]
                        in draw_shape canvas1
                             (Polygon (map (\<lambda>p. rot p (real_of_int tri_cx) (real_of_int tri_cy) angle) pts))
                             (220, 40, 30, 255)
                   else canvas1)
            in Inr (canvas2, w1))"

definition create_vhs_icon :: "pillow \<Rightarrow> world \<Rightarrow> int \<Rightarrow> brand \<Rightarrow> error + image \<times> world" where
  "create_vhs_icon P w sz brand =
     (let bg = create_radial_gradient sz sz (gradient_center brand) (gradient_edge brand);
          msk = draw_shape (new_image ModeL sz sz (lum 0))
                  (RoundedRectangle (0, 0, real_of_int sz, real_of_int sz)
                     (py_int (real_of_int sz * 0.22))) (lum 255);
          result = paste (new_image ModeRGBA sz sz (0, 0, 0, 0)) bg (0, 0) (Some msk)
      in case place_vhs_on_canvas P w sz sz 0.85 True of
           Inl e \<Rightarrow> Inl e
         | Inr (vhs_layer, w1) \<Rightarrow>
             let result1 = alpha_composite result vhs_layer;
                 final = paste (new_image ModeRGBA sz sz (0, 0, 0, 0)) result1 (0, 0) (Some msk)
             in Inr (convert_mode ModeRGB final, w1))"

definition create_vhs_tvos_front ::
    "pillow \<Rightarrow> world \<Rightarrow> int \<Rightarrow> int \<Rightarrow> brand \<Rightarrow> error + image \<times> world" where
  "create_vhs_tvos_front P w width height brand = place_vhs_on_canvas P w width height 0.80 True"

definition create_vhs_launch_logo :: "pillow \<Rightarrow> world \<Rightarrow> int \<Rightarrow> brand \<Rightarrow> error + image \<times> world" where
  "create_vhs_launch_logo P w sz brand = place_vhs_on_canvas P w sz sz 0.80 True"

definition create_vhs_shelf_image ::
    "pillow \<Rightarrow> world \<Rightarrow> int \<Rightarrow> int \<Rightarrow> brand \<Rightarrow> error + image \<times> world" where
  "create_vhs_shelf_image P w width height brand =
     (let bg_color = scale255 (launch_bg_rgb brand);
          img = new_image ModeRGB width height (opaque bg_color);
          glow_size = py_int (real_of_int height * 1.2);
          glow0 = new_image ModeRGBA glow_size glow_size (0, 0, 0, 0);
          glow1 = (case gradient_center brand of (gc0, gc1, gc2) \<Rightarrow>
                     draw_shape glow0 (Ellipse (0, 0, real_of_int glow_size, real_of_int glow_size))
                       (clip8 gc0, clip8 gc1, clip8 gc2, 30));
          glow = gaussian_blur P (glow_size div 4) glow1;
          img_rgba = convert_mode ModeRGBA img;
          glow_layer = paste (new_image ModeRGBA width height (0, 0, 0, 0)) glow
                         ((width - glow_size) div 2, (height - glow_size) div 2) None;
          img_rgba1 = alpha_composite img_rgba glow_layer
      in case place_vhs_on_canvas P w width height 0.50 True of
           Inl e \<Rightarrow> Inl e
         | Inr (vhs_layer, w1) \<Rightarrow>
             Inr (convert_mode ModeRGB (alpha_composite img_rgba1 vhs_layer), w1))"

subsection \<open>JSON as \<open>json.dump(data, f, indent=2)\<close> writes it\<close>

datatype json = JString string | JInt int | JArray "json list" | JObject "(string \<times> json) list"

definition digit_char :: "nat \<Rightarrow> char" where
  "digit_char d = ''0123456789'' ! (d mod 10)"

fun str_nat :: "nat \<Rightarrow> string" where
  "str_nat n = (if n < 10 then [digit_char n] else str_nat (n div 10) @ [digit_char (n mod 10)])"

declare str_nat.simps [simp del]

definition str_int :: "int \<Rightarrow> string" where
  "str_int i = (if i < 0 then CHR ''-'' # str_nat (nat (- i)) else str_nat (nat i))"

definition hex_char :: "nat \<Rightarrow> char" where
  "hex_char d = ''0123456789abcdef'' ! (d mod 16)"

text \<open>The encoder's escapes with \<open>ensure_ascii\<close>, its default.\<close>

definition json_escape_char :: "char \<Rightarrow> string" where
  "json_escape_char c =
     (if c = CHR 0x22 then [CHR 0x5C, CHR 0x22]
      else if c = CHR 0x5C then [CHR 0x5C, CHR 0x5C]
      else if c = CHR 0x0A then [CHR 0x5C, CHR ''n'']
      else if c = CHR 0x0D then [CHR 0x5C, CHR ''r'']
      else if c = CHR 0x09 then [CHR 0x5C, CHR ''t'']
      else if c = CHR 0x08 then [CHR 0x5C, CHR ''b'']
      else if c = CHR 0x0C then [CHR 0x5C, CHR ''f'']
      else if of_char c < (32::nat) \<or> (126::nat) < of_char c
        then [CHR 0x5C, CHR ''u'', CHR ''0'', CHR ''0'',
              hex_char (of_char c div 16), hex_char (of_char c mod 16)]
      else [c])"

definition json_string :: "string \<Rightarrow> string" where
  "json_string s = [CHR 0x22] @ concat (map json_escape_char s) @ [CHR 0x22]"

definition newline_indent :: "nat \<Rightarrow> nat \<Rightarrow> string" where
  "newline_indent indent level = CHR 0x0A # replicate (indent * level) CHR '' ''"

fun join_with :: "string \<Rightarrow> string list \<Rightarrow> string" where
  "join_with sep [] = []"
| "join_with sep [x] = x"
| "join_with sep (x # y # xs) = x @ sep @ join_with sep (y # xs)"

fun json_dumps :: "nat \<Rightarrow> nat \<Rightarrow> json \<Rightarrow> string" where
  "json_dumps indent level (JString s) = json_string s"
| "json_dumps indent level (JInt i) = str_int i"
| "json_dumps indent level (JArray vs) =
     (if vs = [] then ''[]''
      else ''['' @ newline_indent indent (level + 1)
           @ join_with ('','' @ newline_indent indent (level + 1))
               (map (json_dumps indent (level + 1)) vs)
           @ newline_indent indent level @ '']'')"
| "json_dumps indent level (JObject kvs) =
     (if kvs = [] then ''{}''
      else ''{'' @ newline_indent indent (level + 1)
           @ join_with ('','' @ newline_indent indent (level + 1))
               (map (\<lambda>kv. json_string (fst kv) @ '': '' @ json_dumps indent (level + 1) (snd kv)) kvs)
           @ newline_indent indent level @ ''}'')"

text \<open>
  The format \<open>f"{v:.3f}"\<close>: the decimal expansion rounded to three places, ties to even.
\<close>

definition round_half_even :: "real \<Rightarrow> int" where
  "round_half_even v =
     (let f = \<lfloor>v\<rfloor>; d = v - real_of_int f
      in if d < 1 / 2 then f else if 1 / 2 < d then f + 1 else if even f then f else f + 1)"

definition format_3f :: "real \<Rightarrow> string" where
  "format_3f v =
     (let n = nat (round_half_even (\<bar>v\<bar> * 1000))
      in (if v < 0 then ''-'' else []) @ str_nat (n div 1000) @ ''.''
         @ [digit_char (n div 100 mod 10), digit_char (n div 10 mod 10), digit_char (n mod 10)])"

subsection \<open>Colorset JSON helpers (lines 443--496)\<close>

text \<open>The dictionary \<open>data\<close> of lines 446--466.\<close>

definition accent_colorset_data :: "frac_rgb option \<Rightarrow> json" where
  "accent_colorset_data accent =
     (case accent of
        None \<Rightarrow>
          JObject [(''colors'', JArray [JObject [(''idiom'', JString ''universal'')]]),
                   (''info'', JObject [(''author'', JString ''xcode''), (''version'', JInt 1)])]
      | Some (r, g, b) \<Rightarrow>
          JObject [(''colors'', JArray [JObject
                     [(''color'', JObject
                         [(''color-space'', JString ''srgb''),
                          (''components'', JObject
                             [(''alpha'', JString ''1.000''),
                              (''blue'', JString (format_3f b)),
                              (''green'', JString (format_3f g)),
                              (''red'', JString (format_3f r))])]),
                      (''idiom'', JString ''universal'')]]),
                   (''info'', JObject [(''author'', JString ''xcode''), (''version'', JInt 1)])])"

definition write_accent_colorset :: "path \<Rightarrow> frac_rgb option \<Rightarrow> world \<Rightarrow> world" where
  "write_accent_colorset assets accent w =
     (let p = assets @ [''AccentColor.colorset'', ''Contents.json''];
          data = accent_colorset_data accent;
          w1 = makedirs (dirname p) w
      in write_file p (Text (json_dumps 2 0 data @ [CHR 0x0A])) w1)"

text \<open>The dictionary \<open>data\<close> of lines 477--491.\<close>

definition launch_bg_colorset_data :: "frac_rgb \<Rightarrow> json" where
  "launch_bg_colorset_data c =
     (case c of (r, g, b) \<Rightarrow>
        JObject [(''colors'', JArray [JObject
                   [(''color'', JObject
                       [(''color-space'', JString ''srgb''),
                        (''components'', JObject
                           [(''alpha'', JString ''1.000''),
                            (''blue'', JString (format_3f b)),
                            (''green'', JString (format_3f g)),
                            (''red'', JString (format_3f r))])]),
                    (''idiom'', JString ''universal'')]]),
                 (''info'', JObject [(''author'', JString ''xcode''), (''version'', JInt 1)])])"

definition write_launch_bg_colorset :: "path \<Rightarrow> frac_rgb \<Rightarrow> world \<Rightarrow> world" where
  "write_launch_bg_colorset assets c w =
     (let p = assets @ [''LaunchBackground.colorset'', ''Contents.json''];
          data = launch_bg_colorset_data c;
          w1 = makedirs (dirname p) w
      in write_file p (Text (json_dumps 2 0 data @ [CHR 0x0A])) w1)"

subsection \<open>Reading a colorset back\<close>

text \<open>
  The reader's side of the colorset properties: the text of a document as its lines, each
  ended by a newline; the member of a JSON object and the element of a JSON array; and
  the number a decimal string \<open>digits.digits\<close> (with an optional sign) denotes.
\<close>

definition py_lines :: "string list \<Rightarrow> string" where
  "py_lines ls = concat (map (\<lambda>l. l @ [CHR 0x0A]) ls)"

definition json_member :: "string \<Rightarrow> json \<Rightarrow> json option" where
  "json_member k v = (case v of JObject kvs \<Rightarrow> map_of kvs k | _ \<Rightarrow> None)"

definition json_element :: "nat \<Rightarrow> json \<Rightarrow> json option" where
  "json_element i v = (case v of JArray vs \<Rightarrow> (if i < length vs then Some (vs ! i) else None) | _ \<Rightarrow> None)"

definition json_keys :: "json \<Rightarrow> string list" where
  "json_keys v = (case v of JObject kvs \<Rightarrow> map fst kvs | _ \<Rightarrow> [])"

definition digit_val :: "char \<Rightarrow> nat option" where
  "digit_val c = map_of (zip ''0123456789'' [0, 1, 2, 3, 4, 5, 6, 7, 8, 9]) c"

fun nat_of_digits :: "string \<Rightarrow> nat \<Rightarrow> nat option" where
  "nat_of_digits [] acc = Some acc"
| "nat_of_digits (c # cs) acc =
     (case digit_val c of None \<Rightarrow> None | Some d \<Rightarrow> nat_of_digits cs (10 * acc + d))"

definition parse_decimal :: "string \<Rightarrow> real option" where
  "parse_decimal s =
     (let neg = (s \<noteq> [] \<and> hd s = CHR ''-'');
          body = (if neg then tl s else s);
          ip = takeWhile (\<lambda>c. c \<noteq> CHR ''.'') body;
          fp = drop 1 (dropWhile (\<lambda>c. c \<noteq> CHR ''.'') body)
      in if ip = [] \<or> fp = [] then None
         else (case nat_of_digits ip 0 of
                 None \<Rightarrow> None
               | Some i \<Rightarrow>
                   (case nat_of_digits fp 0 of
                      None \<Rightarrow> None
                    | Some f \<Rightarrow>
                        Some ((if neg then - 1 else 1)
                              * (real i + real f / 10 ^ length fp)))))"

subsection \<open>Main: \<open>save\<close> and \<open>generate\<close> (lines 503--595)\<close>

definition save :: "image \<Rightarrow> path \<Rightarrow> bool \<Rightarrow> world \<Rightarrow> world" where
  "save img p force_rgb w =
     (let w1 = makedirs (dirname p) w;
          img1 = (if force_rgb \<and> im_mode img \<noteq> ModeRGB then convert_mode ModeRGB img else img)
      in write_file p (Png img1) w1)"

definition icon_sizes :: "(string \<times> int) list" where
  "icon_sizes =
     [(''AppIcon-1024.png'', 1024),
      (''AppIcon-512@2x.png'', 1024),
      (''AppIcon-512.png'', 512),
      (''AppIcon-256@2x.png'', 512),
      (''AppIcon-256.png'', 256),
      (''AppIcon-128@2x.png'', 256),
      (''AppIcon-128.png'', 128),
      (''AppIcon-32@2x.png'', 64),
      (''AppIcon-32.png'', 32),
      (''AppIcon-16@2x.png'', 32),
      (''AppIcon-16.png'', 16)]"

text \<open>
  The loop of lines 539--542 over the remaining manifest entries.  The state is the
  dictionary \<open>cache\<close>, the sizes rendered so far (a log the source does not keep, added to
  count the renderings) and the world.  The test \<open>sz not in cache\<close> and the lookup
  \<open>cache[sz]\<close> are one case distinction.
\<close>

fun icon_loop ::
    "bool \<Rightarrow> brand \<Rightarrow> path \<Rightarrow> (string \<times> int) list \<Rightarrow> (int \<rightharpoonup> image) \<times> int list \<times> world
       \<Rightarrow> (int \<rightharpoonup> image) \<times> int list \<times> world" where
  "icon_loop is_crt brand icon_dir [] st = st"
| "icon_loop is_crt brand icon_dir ((filename, sz) # rest) (cache, rendered, w) =
     (case cache sz of
        None \<Rightarrow>
          let img = (if is_crt then create_crt_icon sz brand else create_app_icon sz brand)
          in icon_loop is_crt brand icon_dir rest
               (cache(sz \<mapsto> img), rendered @ [sz], save img (icon_dir @ [filename]) True w)
      | Some img \<Rightarrow>
          icon_loop is_crt brand icon_dir rest
            (cache, rendered, save img (icon_dir @ [filename]) True w))"

text \<open>The sections of \<open>generate\<close>, in the order of the source.\<close>

definition gen_app_icons :: "bool \<Rightarrow> brand \<Rightarrow> path \<Rightarrow> world \<Rightarrow> world" where
  "gen_app_icons is_crt brand assets w =
     (let icon_dir = assets @ [''AppIcon.appiconset'']
      in snd (snd (icon_loop is_crt brand icon_dir icon_sizes (Map.empty, [], w))))"

definition gen_launch_logo :: "bool \<Rightarrow> brand \<Rightarrow> path \<Rightarrow> world \<Rightarrow> world" where
  "gen_launch_logo is_crt brand assets w =
     (let logo_dir = assets @ [''LaunchLogo.imageset'']
      in fold (\<lambda>(suffix, sz) w.
                 let logo = (if is_crt then create_crt_launch_logo sz brand
                             else create_launch_logo sz brand)
                 in save logo (logo_dir @ [suffix]) False w)
           [(''LaunchLogo.png'', 120), (''LaunchLogo@2x.png'', 240), (''LaunchLogo@3x.png'', 360)] w)"

definition gen_launch_bg :: "bool \<Rightarrow> brand \<Rightarrow> path \<Rightarrow> world \<Rightarrow> world" where
  "gen_launch_bg is_crt brand assets w =
     (let bg_dir = assets @ [''LaunchBG.imageset'']
      in fold (\<lambda>(suffix, sz) w.
                 let bg_img = new_image ModeRGB sz sz
                                (opaque (if is_crt then CRT_BG else scale255 (launch_bg_rgb brand)))
                 in save bg_img (bg_dir @ [suffix]) True w)
           [(''LaunchBG.png'', 120), (''LaunchBG@2x.png'', 240), (''LaunchBG@3x.png'', 360)] w)"

definition gen_tvos_icon :: "bool \<Rightarrow> brand \<Rightarrow> path \<Rightarrow> world \<Rightarrow> world" where
  "gen_tvos_icon is_crt brand assets w =
     (let tv = assets @ [''tv.brandassets'', ''App Icon.imagestack'']
      in fold (\<lambda>(wd, h, tag) w.
                 let back = (if is_crt then create_crt_tvos_back wd h brand
                             else create_tvos_back wd h brand);
                     w1 = save back (tv @ [''Back.imagestacklayer'', ''Content.imageset'', tag]) True w;
                     w2 = save (create_tvos_middle wd h)
                            (tv @ [''Middle.imagestacklayer'', ''Content.imageset'', tag]) False w1;
                     front = (if is_crt then create_crt_tvos_front wd h brand
                              else create_tvos_front wd h brand)
                 in save front (tv @ [''Front.imagestacklayer'', ''Content.imageset'', tag]) False w2)
           [(400, 240, ''icon_400x240.png''), (800, 480, ''icon_800x480.png'')] w)"

definition gen_tvos_store_icon :: "bool \<Rightarrow> brand \<Rightarrow> path \<Rightarrow> world \<Rightarrow> world" where
  "gen_tvos_store_icon is_crt brand assets w =
     (let tvs = assets @ [''tv.brandassets'', ''App Icon - App Store.imagestack''];
          tag = ''icon_1280x768.png'';
          back = (if is_crt then create_crt_tvos_back 1280 768 brand
                  else create_tvos_back 1280 768 brand);
          w1 = save back (tvs @ [''Back.imagestacklayer'', ''Content.imageset'', tag]) True w;
          w2 = save (create_tvos_middle 1280 768)
                 (tvs @ [''Middle.imagestacklayer'', ''Content.imageset'', tag]) False w1;
          front = (if is_crt then create_crt_tvos_front 1280 768 brand
                   else create_tvos_front 1280 768 brand)
      in save front (tvs @ [''Front.imagestacklayer'', ''Content.imageset'', tag]) False w2)"

definition shelf_fn :: "pillow \<Rightarrow> bool \<Rightarrow> int \<Rightarrow> int \<Rightarrow> brand \<Rightarrow> image" where
  "shelf_fn P is_crt = (if is_crt then create_crt_shelf_image else create_shelf_image P)"

definition gen_top_shelf :: "pillow \<Rightarrow> bool \<Rightarrow> brand \<Rightarrow> path \<Rightarrow> world \<Rightarrow> world" where
  "gen_top_shelf P is_crt brand assets w =
     (let shelf = assets @ [''tv.brandassets'', ''Top Shelf Image.imageset''];
          w1 = save (shelf_fn P is_crt 1920 720 brand) (shelf @ [''shelf_1920x720.png'']) True w
      in save (shelf_fn P is_crt 3840 1440 brand) (shelf @ [''shelf_3840x1440.png'']) True w1)"

definition gen_top_shelf_wide :: "pillow \<Rightarrow> bool \<Rightarrow> brand \<Rightarrow> path \<Rightarrow> world \<Rightarrow> world" where
  "gen_top_shelf_wide P is_crt brand assets w =
     (let shelfw = assets @ [''tv.brandassets'', ''Top Shelf Image Wide.imageset''];
          w1 = save (shelf_fn P is_crt 2320 720 brand) (shelfw @ [''shelf_wide_2320x720.png'']) True w
      in save (shelf_fn P is_crt 4640 1440 brand) (shelfw @ [''shelf_wide_4640x1440.png'']) True w1)"

definition gen_colorsets :: "brand \<Rightarrow> path \<Rightarrow> world \<Rightarrow> world" where
  "gen_colorsets brand assets w =
     write_launch_bg_colorset assets (launch_bg_rgb brand)
       (write_accent_colorset assets (accent_rgb brand) w)"

text \<open>
  The icon rendered afresh for a size (the right-hand side of line 541), and the icon
  section without the cache: every manifest entry rendered on its own.  The second is
  the reference the cached loop is compared with.
\<close>

definition icon_image :: "bool \<Rightarrow> brand \<Rightarrow> int \<Rightarrow> image" where
  "icon_image is_crt brand sz =
     (if is_crt then create_crt_icon sz brand else create_app_icon sz brand)"

definition gen_app_icons_unmemoized :: "bool \<Rightarrow> brand \<Rightarrow> path \<Rightarrow> world \<Rightarrow> world" where
  "gen_app_icons_unmemoized is_crt brand assets w =
     (let icon_dir = assets @ [''AppIcon.appiconset'']
      in fold (\<lambda>(filename, sz) w. save (icon_image is_crt brand sz) (icon_dir @ [filename]) True w)
           icon_sizes w)"

text \<open>\<open>generate(brand_key)\<close>; \<open>BRANDS[brand_key]\<close> raises KeyError for an unknown key.\<close>

definition generate :: "pillow \<Rightarrow> string \<Rightarrow> world \<Rightarrow> error + world" where
  "generate P brand_key w =
     (case map_of BRANDS brand_key of
        None \<Rightarrow> Inl KeyError
      | Some brand \<Rightarrow>
          let root = dirname (dirname (script_file w));
              assets = root @ assets_dir brand;
              is_crt = (brand_key = ''dispatcherpvr'');
              w1 = gen_app_icons is_crt brand assets w;
              w2 = gen_launch_logo is_crt brand assets w1;
              w3 = gen_launch_bg is_crt brand assets w2;
              w4 = gen_tvos_icon is_crt brand assets w3;
              w5 = gen_tvos_store_icon is_crt brand assets w4;
              w6 = gen_top_shelf P is_crt brand assets w5;
              w7 = gen_top_shelf_wide P is_crt brand assets w6
          in Inr (gen_colorsets brand assets w7))"

subsection \<open>The command line (lines 598--613)\<close>

text \<open>
  The parser has one positional argument with \<open>choices\<close>.  \<open>parse_args\<close> is applied to
  the string the command line gives that positional (a string that begins with a dash
  reaches the positional only after the separator \<open>--\<close>; options such as \<open>-h\<close> are not
  part of the model).  A value outside the choices is the parser's usage error, which
  ends the process with status 2 before \<open>generate\<close> is called.
\<close>

definition choices :: "string list" where
  "choices = [''nexuspvr'', ''dispatcherpvr'', ''all'']"

definition parse_args :: "string \<Rightarrow> int + string" where
  "parse_args arg = (if arg \<in> set choices then Inr arg else Inl 2)"

text \<open>\<open>for key in BRANDS: generate(key)\<close>; an exception that escapes ends the process with status 1.\<close>

fun generate_all :: "pillow \<Rightarrow> string list \<Rightarrow> world \<Rightarrow> int \<times> world" where
  "generate_all P [] w = (0, w)"
| "generate_all P (key # keys) w =
     (case generate P key w of Inl e \<Rightarrow> (1, w) | Inr w' \<Rightarrow> generate_all P keys w')"

text \<open>\<open>main()\<close>: the exit status of the process and the world it leaves.\<close>

definition main :: "pillow \<Rightarrow> string \<Rightarrow> world \<Rightarrow> int \<times> world" where
  "main P arg w =
     (case parse_args arg of
        Inl status \<Rightarrow> (status, w)
      | Inr brand_arg \<Rightarrow>
          if brand_arg = ''all'' then generate_all P (map fst BRANDS) w
          else (case generate P brand_arg w of Inl e \<Rightarrow> (1, w) | Inr w' \<Rightarrow> (0, w')))"


subsection \<open>The table of outputs\<close>

text \<open>
  A second view of \<open>generate\<close>, to compare it with: the files one run writes, as a table
  of paths relative to the repository root with their contents, in the order of writing;
  and the effect of writing such a table under a root, each file after the creation of
  its directory.  \<open>saved\<close> is the content \<open>save\<close> gives a file.
\<close>

definition saved :: "bool \<Rightarrow> image \<Rightarrow> content" where
  "saved force_rgb img =
     Png (if force_rgb \<and> im_mode img \<noteq> ModeRGB then convert_mode ModeRGB img else img)"

definition write_all :: "path \<Rightarrow> (path \<times> content) list \<Rightarrow> world \<Rightarrow> world" where
  "write_all base table w =
     fold (\<lambda>(rel, c) w. write_file (base @ rel) c (makedirs (dirname (base @ rel)) w)) table w"

definition asset_table :: "pillow \<Rightarrow> bool \<Rightarrow> brand \<Rightarrow> (path \<times> content) list" where
  "asset_table P is_crt brand =
     (let a = assets_dir brand;
          tv = a @ [''tv.brandassets'', ''App Icon.imagestack''];
          tvs = a @ [''tv.brandassets'', ''App Icon - App Store.imagestack''];
          layers = (\<lambda>stack wd h tag.
            [(stack @ [''Back.imagestacklayer'', ''Content.imageset'', tag],
                saved True (if is_crt then create_crt_tvos_back wd h brand
                            else create_tvos_back wd h brand)),
             (stack @ [''Middle.imagestacklayer'', ''Content.imageset'', tag],
                saved False (create_tvos_middle wd h)),
             (stack @ [''Front.imagestacklayer'', ''Content.imageset'', tag],
                saved False (if is_crt then create_crt_tvos_front wd h brand
                             else create_tvos_front wd h brand))]);
          shelf = (\<lambda>wd h. saved True (if is_crt then create_crt_shelf_image wd h brand
                                        else create_shelf_image P wd h brand))
      in map (\<lambda>(filename, sz).
                (a @ [''AppIcon.appiconset'', filename], saved True (icon_image is_crt brand sz)))
           icon_sizes
         @ map (\<lambda>(suffix, sz).
                  (a @ [''LaunchLogo.imageset'', suffix],
                   saved False (if is_crt then create_crt_launch_logo sz brand
                                else create_launch_logo sz brand)))
             [(''LaunchLogo.png'', 120), (''LaunchLogo@2x.png'', 240), (''LaunchLogo@3x.png'', 360)]
         @ map (\<lambda>(suffix, sz).
                  (a @ [''LaunchBG.imageset'', suffix],
                   saved True (new_image ModeRGB sz sz
                     (opaque (if is_crt then CRT_BG else scale255 (launch_bg_rgb brand))))))
             [(''LaunchBG.png'', 120), (''LaunchBG@2x.png'', 240), (''LaunchBG@3x.png'', 360)]
         @ layers tv 400 240 ''icon_400x240.png''
         @ layers tv 800 480 ''icon_800x480.png''
         @ layers tvs 1280 768 ''icon_1280x768.png''
         @ [(a @ [''tv.brandassets'', ''Top Shelf Image.imageset'', ''shelf_1920x720.png''],
               shelf 1920 720),
            (a @ [''tv.brandassets'', ''Top Shelf Image.imageset'', ''shelf_3840x1440.png''],
               shelf 3840 1440),
            (a @ [''tv.brandassets'', ''Top Shelf Image Wide.imageset'', ''shelf_wide_2320x720.png''],
               shelf 2320 720),
            (a @ [''tv.brandassets'', ''Top Shelf Image Wide.imageset'', ''shelf_wide_4640x1440.png''],
               shelf 4640 1440),
            (a @ [''AccentColor.colorset'', ''Contents.json''],
               Text (json_dumps 2 0 (accent_colorset_data (accent_rgb brand)) @ [CHR 0x0A])),
            (a @ [''LaunchBackground.colorset'', ''Contents.json''],
               Text (json_dumps 2 0 (launch_bg_colorset_data (launch_bg_rgb brand)) @ [CHR 0x0A]))])"

text \<open>The files and the directories a table gives rise to under a root; a later entry wins.\<close>

definition table_files :: "path \<Rightarrow> (path \<times> content) list \<Rightarrow> (path \<rightharpoonup> content)" where
  "table_files base table = map_of (rev (map (\<lambda>(rel, c). (base @ rel, c)) table))"

definition table_dirs :: "path \<Rightarrow> (path \<times> content) list \<Rightarrow> path set" where
  "table_dirs base table = (\<Union>(rel, c) \<in> set table. set (prefixes (dirname (base @ rel))))"

subsection \<open>A concrete setting to run the model in\<close>

text \<open>
  Stand-ins for the two Pillow operations the model takes as parameters (both return the
  image unchanged) and a world with an empty file system in which the script is
  \<open>/repo/scripts/generate_assets.py\<close>.
\<close>

definition plain_pillow :: pillow where
  "plain_pillow = \<lparr>gaussian_blur = (\<lambda>radius img. img), resize_lanczos = (\<lambda>img sz. img)\<rparr>"

definition fresh_world :: world where
  "fresh_world =
     \<lparr>files = Map.empty, dirs = {}, opened = [],
      script_file = [''repo'', ''scripts'', ''generate_assets.py'']\<rparr>"

section \<open>Verified properties\<close>

subsection \<open>Arithmetic of the interpolation\<close>

lemma gradient_ratio_range:
  "0 \<le> gradient_ratio w h x y \<and> gradient_ratio w h x y \<le> 1"
  unfolding gradient_ratio_def Let_def
  by (auto intro!: powr_le1 simp: min_def)

lemma lerp_lower:
  fixes c e :: int and t :: real
  assumes "0 \<le> t" "t \<le> 1"
  shows "real_of_int (min c e) \<le> real_of_int c + real_of_int (e - c) * t"
proof (cases "c \<le> e")
  case True
  then have "0 \<le> real_of_int (e - c) * t" using assms by simp
  with True show ?thesis by simp
next
  case False
  then have "real_of_int (c - e) * t \<le> real_of_int (c - e)"
    using assms by (intro mult_left_le) auto
  with False show ?thesis by (simp add: algebra_simps)
qed

lemma lerp_upper:
  fixes c e :: int and t :: real
  assumes "0 \<le> t" "t \<le> 1"
  shows "real_of_int c + real_of_int (e - c) * t \<le> real_of_int (max c e)"
proof (cases "c \<le> e")
  case True
  then have "real_of_int (e - c) * t \<le> real_of_int (e - c)"
    using assms by (intro mult_left_le) auto
  with True show ?thesis by (simp add: algebra_simps)
next
  case False
  then have "0 \<le> real_of_int (c - e) * t" using assms by simp
  with False show ?thesis by (simp add: algebra_simps)
qed

lemma py_int_between:
  assumes "real_of_int a \<le> v" "v \<le> real_of_int b"
  shows "a \<le> py_int v \<and> py_int v \<le> b"
  using assms unfolding py_int_def
  by (auto simp: le_floor_iff floor_le_iff ceiling_le_iff le_ceiling_iff)

lemma py_int_of_int [simp]: "py_int (real_of_int n) = n"
  by (simp add: py_int_def)

lemma channel_between:
  "min c e \<le> py_int (real_of_int c + real_of_int (e - c) * gradient_ratio w h x y) \<and>
   py_int (real_of_int c + real_of_int (e - c) * gradient_ratio w h x y) \<le> max c e"
  using gradient_ratio_range [of w h x y]
  by (intro py_int_between lerp_lower lerp_upper) auto

lemma clip8_id: "0 \<le> v \<Longrightarrow> v \<le> 255 \<Longrightarrow> clip8 v = v"
  by (simp add: clip8_def)

lemma gradient_ratio_center:
  "gradient_ratio (2 * m) (2 * n) m n = 0"
  by (simp add: gradient_ratio_def Let_def)

lemma gradient_ratio_corner:
  assumes "0 < w" "0 < h"
  shows "gradient_ratio w h 0 0 = 1"
  using assms by (simp add: gradient_ratio_def Let_def)

lemma getpixel_gradient:
  "getpixel (create_radial_gradient w h c e) x y =
     (if 0 \<le> x \<and> x < w \<and> 0 \<le> y \<and> y < h then Some (opaque (gradient_rgb w h c e x y)) else None)"
  by (simp add: getpixel_def create_radial_gradient_def Let_def in_bounds_def new_image_def)

lemma py_int_near: "\<bar>real_of_int (py_int v) - v\<bar> \<le> 1"
  unfolding py_int_def by (auto simp: abs_le_iff) linarith+

subsection \<open>The radial gradient\<close>

text \<open>
  C3 (as amended).  For every positive width and height and every pair of RGB colours:
  when both sides are even, the pixel of \<open>create_radial_gradient\<close> at the exact canvas
  centre \<open>(width / 2, height / 2)\<close> is the centre colour; the pixel at the corner
  \<open>(0, 0)\<close> is the edge colour exactly (so within one unit per channel); and every
  pixel is opaque and each of its channels is within one unit of the per-channel
  interpolation of centre toward edge by
  \<open>min(distance-to-centre / corner-distance, 1) ^ 0.8\<close>, which the code computes in
  floating point and truncates to an integer.  The centre is a pixel coordinate only
  when both sides are even.
\<close>

theorem radial_gradient_center_corner:
  assumes "0 < width" "0 < height"
    and "valid_rgb (c0, c1, c2)" "valid_rgb (e0, e1, e2)"
  shows "(even width \<and> even height \<longrightarrow>
            getpixel (create_radial_gradient width height (c0, c1, c2) (e0, e1, e2))
              (width div 2) (height div 2) = Some (c0, c1, c2, 255)) \<and>
         getpixel (create_radial_gradient width height (c0, c1, c2) (e0, e1, e2)) 0 0
           = Some (e0, e1, e2, 255) \<and>
         (\<forall>x y r g b a.
            getpixel (create_radial_gradient width height (c0, c1, c2) (e0, e1, e2)) x y
              = Some (r, g, b, a) \<longrightarrow>
            (let ratio = (min (sqrt ((real_of_int x - real_of_int width / 2)\<^sup>2
                                   + (real_of_int y - real_of_int height / 2)\<^sup>2)
                               / sqrt ((real_of_int width / 2)\<^sup>2 + (real_of_int height / 2)\<^sup>2)) 1)
                           powr 0.8
             in \<bar>real_of_int r - (real_of_int c0 + real_of_int (e0 - c0) * ratio)\<bar> \<le> 1 \<and>
                \<bar>real_of_int g - (real_of_int c1 + real_of_int (e1 - c1) * ratio)\<bar> \<le> 1 \<and>
                \<bar>real_of_int b - (real_of_int c2 + real_of_int (e2 - c2) * ratio)\<bar> \<le> 1 \<and>
                a = 255))"
proof -
  let ?G = "create_radial_gradient width height (c0, c1, c2) (e0, e1, e2)"
  have 1: "getpixel ?G (width div 2) (height div 2) = Some (c0, c1, c2, 255)"
    if ev: "even width \<and> even height"
  proof -
    obtain m n where mn: "width = 2 * m" "height = 2 * n"
      using ev by (auto elim!: evenE)
    have pos: "0 < m" "0 < n" using assms(1,2) mn by auto
    show ?thesis
      using assms(3) pos
      by (simp add: getpixel_gradient gradient_rgb_def Let_def gradient_ratio_center opaque_def
          valid_rgb_def clip8_id mn)
  qed
  have k: "gradient_ratio width height 0 0 = 1"
    using assms(1,2) by (rule gradient_ratio_corner)
  have 2: "getpixel ?G 0 0 = Some (e0, e1, e2, 255)"
    using assms(1,2,4)
    by (simp add: getpixel_gradient gradient_rgb_def Let_def k opaque_def valid_rgb_def clip8_id)
  have 3: "let ratio = (min (sqrt ((real_of_int x - real_of_int width / 2)\<^sup>2
                                   + (real_of_int y - real_of_int height / 2)\<^sup>2)
                               / sqrt ((real_of_int width / 2)\<^sup>2 + (real_of_int height / 2)\<^sup>2)) 1)
                           powr 0.8
             in \<bar>real_of_int r - (real_of_int c0 + real_of_int (e0 - c0) * ratio)\<bar> \<le> 1 \<and>
                \<bar>real_of_int g - (real_of_int c1 + real_of_int (e1 - c1) * ratio)\<bar> \<le> 1 \<and>
                \<bar>real_of_int b - (real_of_int c2 + real_of_int (e2 - c2) * ratio)\<bar> \<le> 1 \<and>
                a = 255"
    if px: "getpixel ?G x y = Some (r, g, b, a)" for x y r g b a
  proof -
    let ?t = "gradient_ratio width height x y"
    let ?v = "\<lambda>c e. py_int (real_of_int c + real_of_int (e - c) * ?t)"
    have rng: "clip8 (?v c e) = ?v c e"
      if "0 \<le> c" "c \<le> 255" "0 \<le> e" "e \<le> 255" for c e :: int
      using that channel_between [of c e width height x y] by (intro clip8_id) linarith+
    from px have "r = clip8 (?v c0 e0)" "g = clip8 (?v c1 e1)" "b = clip8 (?v c2 e2)" "a = 255"
      by (auto simp: getpixel_gradient gradient_rgb_def Let_def opaque_def simp del: of_int_diff
          split: if_splits)
    with assms(3,4) have rgb: "r = ?v c0 e0" "g = ?v c1 e1" "b = ?v c2 e2" "a = 255"
      by (simp_all add: valid_rgb_def rng del: of_int_diff)
    have t: "?t = (min (sqrt ((real_of_int x - real_of_int width / 2)\<^sup>2
                                   + (real_of_int y - real_of_int height / 2)\<^sup>2)
                               / sqrt ((real_of_int width / 2)\<^sup>2 + (real_of_int height / 2)\<^sup>2)) 1)
                           powr 0.8"
      by (simp add: gradient_ratio_def Let_def)
    show ?thesis
      unfolding Let_def t [symmetric] rgb
      using py_int_near by blast
  qed
  from 1 2 3 show ?thesis by blast
qed

text \<open>
  The theorem at the 1024 by 1024 icon background of the brand nexuspvr (centre and
  corner) and at a 3 by 5 gradient (corner).
\<close>

theorem radial_gradient_center_corner_witness:
  "(0::int) < 1024 \<and> even (1024::int) \<and>
   getpixel (create_radial_gradient 1024 1024 (42, 107, 153) (15, 35, 60)) 512 512
     = Some (42, 107, 153, 255) \<and>
   getpixel (create_radial_gradient 1024 1024 (42, 107, 153) (15, 35, 60)) 0 0
     = Some (15, 35, 60, 255) \<and>
   getpixel (create_radial_gradient 3 5 (42, 107, 153) (15, 35, 60)) 0 0
     = Some (15, 35, 60, 255)"
proof -
  have v: "valid_rgb (42, 107, 153)" "valid_rgb (15, 35, 60)" by (simp_all add: valid_rgb_def)
  have p: "(0::int) < 1024" and e: "even (1024::int)" by simp_all
  note T = radial_gradient_center_corner [OF p p v]
  from T [THEN conjunct1] e have "getpixel (create_radial_gradient 1024 1024 (42, 107, 153) (15, 35, 60))
     (1024 div 2) (1024 div 2) = Some (42, 107, 153, 255)" by blast
  moreover have "(0::int) < 3" "(0::int) < 5" by simp_all
  note radial_gradient_center_corner [OF this v, THEN conjunct2, THEN conjunct1]
  ultimately show ?thesis using T [THEN conjunct2, THEN conjunct1] p e by simp
qed

text \<open>
  C3 as stated fails at an odd size: the only pixel of the 1 by 1 gradient, the one the
  canvas centre \<open>(0.5, 0.5)\<close> falls in, lies at the corner distance from the centre and
  has the edge colour, not the centre colour.
\<close>

theorem radial_gradient_odd_counterexample:
  "0 < (1::int) \<and> valid_rgb (42, 107, 153) \<and> valid_rgb (15, 35, 60) \<and>
   getpixel (create_radial_gradient 1 1 (42, 107, 153) (15, 35, 60)) (1 div 2) (1 div 2)
     = Some (15, 35, 60, 255) \<and>
   getpixel (create_radial_gradient 1 1 (42, 107, 153) (15, 35, 60)) (1 div 2) (1 div 2)
     \<noteq> Some (42, 107, 153, 255)"
proof -
  have "gradient_ratio 1 1 0 0 = 1" by (rule gradient_ratio_corner) simp_all
  then show ?thesis
    by (simp add: getpixel_gradient gradient_rgb_def Let_def opaque_def valid_rgb_def clip8_def)
qed

text \<open>
  C9.  For every pixel of the image \<open>create_radial_gradient\<close> returns, each of the three
  channel values lies between the corresponding channel values of the centre colour and
  the edge colour, inclusive, for channel values in 0..255.
\<close>

theorem radial_gradient_channels_between:
  assumes "valid_rgb (c0, c1, c2)" "valid_rgb (e0, e1, e2)"
    and "getpixel (create_radial_gradient width height (c0, c1, c2) (e0, e1, e2)) x y
           = Some (r, g, b, a)"
  shows "min c0 e0 \<le> r \<and> r \<le> max c0 e0 \<and>
         min c1 e1 \<le> g \<and> g \<le> max c1 e1 \<and>
         min c2 e2 \<le> b \<and> b \<le> max c2 e2"
proof -
  let ?t = "gradient_ratio width height x y"
  let ?v = "\<lambda>c e. py_int (real_of_int c + real_of_int (e - c) * ?t)"
  have rng: "\<And>c e. 0 \<le> c \<Longrightarrow> c \<le> 255 \<Longrightarrow> 0 \<le> e \<Longrightarrow> e \<le> 255 \<Longrightarrow> clip8 (?v c e) = ?v c e"
  proof -
    fix c e :: int
    assume "0 \<le> c" "c \<le> 255" "0 \<le> e" "e \<le> 255"
    with channel_between [of c e width height x y] show "clip8 (?v c e) = ?v c e"
      by (intro clip8_id) linarith+
  qed
  from assms(3) have "r = clip8 (?v c0 e0)" "g = clip8 (?v c1 e1)" "b = clip8 (?v c2 e2)"
    by (auto simp: getpixel_gradient gradient_rgb_def Let_def opaque_def simp del: of_int_diff
        split: if_splits)
  with assms(1,2) have "r = ?v c0 e0" "g = ?v c1 e1" "b = ?v c2 e2"
    by (simp_all add: valid_rgb_def rng del: of_int_diff)
  then show ?thesis using channel_between by simp
qed

text \<open>The theorem at the corner pixel of the 1024 by 1024 gradient of nexuspvr.\<close>

theorem radial_gradient_channels_between_witness:
  "getpixel (create_radial_gradient 1024 1024 (42, 107, 153) (15, 35, 60)) 0 0
     = Some (15, 35, 60, 255) \<and>
   min 42 15 \<le> (15::int) \<and> (15::int) \<le> max 42 15 \<and>
   min 107 35 \<le> (35::int) \<and> (35::int) \<le> max 107 35 \<and>
   min 153 60 \<le> (60::int) \<and> (60::int) \<le> max 153 60"
proof -
  have v: "valid_rgb (42, 107, 153)" "valid_rgb (15, 35, 60)" by (simp_all add: valid_rgb_def)
  have "gradient_ratio 1024 1024 0 0 = 1" by (rule gradient_ratio_corner) simp_all
  then have p: "getpixel (create_radial_gradient 1024 1024 (42, 107, 153) (15, 35, 60)) 0 0
     = Some (15, 35, 60, 255)"
    by (simp add: getpixel_gradient gradient_rgb_def Let_def opaque_def clip8_def)
  from radial_gradient_channels_between [OF v p] p show ?thesis by blast
qed

subsection \<open>CRT television radii\<close>

text \<open>
  C6.  For every drawing scale \<open>s\<close> whose reference extent \<open>int(200 * s)\<close> is at most 32,
  the radius of the recording dot and the radius of the two knobs are their small-size
  values \<open>max(int(2 * s), 1)\<close> and \<open>max(int(3 * s), 1)\<close>, hence at least 1 pixel: never
  below the floor and never zero.
\<close>

theorem crt_small_radii_floor:
  assumes "py_int (200 * s) \<le> 32"
  shows "crt_rec_r s = max (py_int (2 * s)) 1 \<and> crt_kr s = max (py_int (3 * s)) 1 \<and>
         1 \<le> crt_rec_r s \<and> 1 \<le> crt_kr s"
  using assms by (simp add: crt_rec_r_def crt_kr_def Let_def)

text \<open>The theorem at the 16 pixel icon, \<open>s = 16 / 200\<close>.\<close>

theorem crt_small_radii_floor_witness:
  "py_int (200 * (16 / 200)) \<le> 32 \<and> crt_rec_r (16 / 200) = 1 \<and> crt_kr (16 / 200) = 1"
proof -
  have h: "py_int (200 * (16 / 200)) \<le> 32" by (simp add: py_int_def)
  from crt_small_radii_floor [OF h] h show ?thesis by (simp add: py_int_def)
qed

subsection \<open>Colorset documents\<close>

lemma replicate_num [simp]: "replicate (numeral k) x = x # replicate (pred_numeral k) x"
  by (simp add: numeral_eq_Suc)

lemma str_nat_small: "n < 10 \<Longrightarrow> str_nat n = [digit_char n]"
  by (simp add: str_nat.simps)

lemma digit_val_digit_char: "d < 10 \<Longrightarrow> digit_val (digit_char d) = Some d"
proof -
  assume "d < 10"
  then have "d \<in> set [0, 1, 2, 3, 4, 5, 6, 7, 8, 9]"
    by simp arith
  then show ?thesis
    by (auto simp: digit_val_def digit_char_def)
qed

lemma digit_char_mem: "digit_char d \<in> set ''0123456789''"
  unfolding digit_char_def by (rule nth_mem) simp

lemma digit_char_not_dot: "digit_char d \<noteq> CHR ''.''"
  using digit_char_mem [of d] by auto

lemma digit_char_not_minus: "digit_char d \<noteq> CHR ''-''"
  using digit_char_mem [of d] by auto

lemma round_half_even_of_int: "round_half_even (real_of_int k) = k"
  by (simp add: round_half_even_def)

lemma round_half_even_near: "\<bar>real_of_int (round_half_even v) - v\<bar> \<le> 1 / 2"
  unfolding round_half_even_def Let_def
  by (auto split: if_splits)

lemma round_half_even_mono_bounds:
  assumes "real_of_int a \<le> v" "v \<le> real_of_int b"
  shows "a \<le> round_half_even v \<and> round_half_even v \<le> b"
proof -
  have lo: "a \<le> \<lfloor>v\<rfloor>" using assms(1) by (simp add: le_floor_iff)
  have hi: "\<lfloor>v\<rfloor> \<le> b" using assms(2) by (simp add: floor_le_iff)
  show ?thesis
  proof (cases "\<lfloor>v\<rfloor> = b")
    case True
    have "real_of_int \<lfloor>v\<rfloor> \<le> v" by simp
    with True assms(2) have "v = real_of_int b" by simp
    then show ?thesis using lo True by (simp add: round_half_even_of_int)
  next
    case False
    with hi have "\<lfloor>v\<rfloor> + 1 \<le> b" by simp
    with lo hi show ?thesis
      unfolding round_half_even_def Let_def by (auto split: if_splits)
  qed
qed

lemma lin3: "(n::nat) = e * 10 + d \<Longrightarrow> e = f * 10 + c \<Longrightarrow> f = a * 10 + b \<Longrightarrow>
   a * 1000 + (10 * (10 * b + c) + d) = n"
  by simp

lemma digits3_nat:
  "(n::nat) div 1000 * 1000 + (10 * (10 * (n div 100 mod 10) + n div 10 mod 10) + n mod 10) = n"
proof -
  have a: "n = n div 10 * 10 + n mod 10" by simp
  have b: "n div 10 = n div 100 * 10 + n div 10 mod 10"
    using div_mult_mod_eq [of "n div 10" 10] by (simp add: div_mult2_eq [symmetric])
  have c: "n div 100 = n div 1000 * 10 + n div 100 mod 10"
    using div_mult_mod_eq [of "n div 100" 10] by (simp add: div_mult2_eq [symmetric])
  show ?thesis by (rule lin3 [OF a b c])
qed

lemma digits3:
  "real (n div 1000) + real (10 * (10 * (n div 100 mod 10) + n div 10 mod 10) + n mod 10) / 1000
     = real n / 1000"
proof -
  have "real (n div 1000 * 1000 + (10 * (10 * (n div 100 mod 10) + n div 10 mod 10) + n mod 10)) = real n"
    by (simp only: digits3_nat)
  then have "real (n div 1000) * 1000 + real (10 * (10 * (n div 100 mod 10) + n div 10 mod 10) + n mod 10) = real n"
    by (simp only: of_nat_add of_nat_mult of_nat_numeral)
  then show ?thesis by (simp add: field_simps)
qed

lemma parse_format_3f:
  assumes "0 \<le> v" "v \<le> 1"
  shows "parse_decimal (format_3f v) = Some (real_of_int (round_half_even (v * 1000)) / 1000)"
proof -
  define n where "n = nat (round_half_even (v * 1000))"
  have b: "0 \<le> round_half_even (v * 1000) \<and> round_half_even (v * 1000) \<le> 1000"
    using assms by (intro round_half_even_mono_bounds) auto
  then have n: "n \<le> 1000" and rn: "real n = real_of_int (round_half_even (v * 1000))"
    by (auto simp: n_def)
  have d: "n div 1000 < 10" "n div 100 mod 10 < 10" "n div 10 mod 10 < 10" "n mod 10 < 10"
    using n by auto
  have f: "format_3f v = digit_char (n div 1000) # CHR ''.'' #
             [digit_char (n div 100 mod 10), digit_char (n div 10 mod 10), digit_char (n mod 10)]"
    using assms d(1) by (simp add: format_3f_def Let_def n_def [symmetric] str_nat_small abs_if)
  show ?thesis
    unfolding f parse_decimal_def Let_def
    using digits3 [of n] d
    by (simp add: digit_char_not_dot digit_char_not_minus digit_val_digit_char rn)
qed

lemma escape_plain:
  "c \<in> set ''0123456789.-'' \<Longrightarrow> json_escape_char c = [c]"
  by (auto simp: json_escape_char_def)

lemma escape_digit_char: "json_escape_char (digit_char d) = [digit_char d]"
  using digit_char_mem [of d] by (intro escape_plain) auto

lemma escape_str_nat: "concat (map json_escape_char (str_nat n)) = str_nat n"
proof (induction n rule: str_nat.induct)
  case (1 n)
  show ?case
  proof (cases "n < 10")
    case True
    then show ?thesis by (simp add: str_nat_small escape_digit_char)
  next
    case False
    then have "str_nat n = str_nat (n div 10) @ [digit_char (n mod 10)]"
      by (subst str_nat.simps) simp
    with False 1 show ?thesis by (simp add: escape_digit_char)
  qed
qed

lemma json_string_format_3f: "json_string (format_3f v) = [CHR 0x22] @ format_3f v @ [CHR 0x22]"
  by (simp add: json_string_def format_3f_def Let_def escape_str_nat escape_digit_char
      escape_plain)

lemma files_write_accent:
  "files (write_accent_colorset assets accent w) (assets @ [''AccentColor.colorset'', ''Contents.json''])
     = Some (Text (json_dumps 2 0 (accent_colorset_data accent) @ [CHR 0x0A]))"
  by (simp add: write_accent_colorset_def Let_def write_file_def makedirs_def)

lemma dirname_two: "dirname (xs @ [a, b]) = xs @ [a]"
  by (simp add: dirname_def butlast_append)

lemma dirs_write_accent:
  "dirs (write_accent_colorset assets accent w) = dirs w \<union> set (prefixes (assets @ [''AccentColor.colorset'']))"
  unfolding write_accent_colorset_def Let_def write_file_def makedirs_def dirname_two
  by simp

lemma json_string_plain:
  "list_all (\<lambda>c. json_escape_char c = [c]) s \<Longrightarrow> json_string s = CHR 0x22 # s @ [CHR 0x22]"
  by (induction s) (auto simp: json_string_def)

lemma accent_none_text:
  \<open>json_dumps 2 0 (accent_colorset_data None) @ [CHR 0x0A] =
     py_lines
      [''{'',
       ''  "colors": ['',
       ''    {'',
       ''      "idiom": "universal"'',
       ''    }'',
       ''  ],'',
       ''  "info": {'',
       ''    "author": "xcode",'',
       ''    "version": 1'',
       ''  }'',
       ''}'']\<close>
  by (simp add: accent_colorset_data_def py_lines_def json_string_def json_escape_char_def
      newline_indent_def str_int_def str_nat_small digit_char_def)


lemma accent_some_text:
  \<open>json_dumps 2 0 (accent_colorset_data (Some (r, g, b))) @ [CHR 0x0A] =
     py_lines
      [''{'',
       ''  "colors": ['',
       ''    {'',
       ''      "color": {'',
       ''        "color-space": "srgb",'',
       ''        "components": {'',
       ''          "alpha": "1.000",'',
       ''          "blue": "'' @ format_3f b @ ''",'',
       ''          "green": "'' @ format_3f g @ ''",'',
       ''          "red": "'' @ format_3f r @ ''"'',
       ''        }'',
       ''      },'',
       ''      "idiom": "universal"'',
       ''    }'',
       ''  ],'',
       ''  "info": {'',
       ''    "author": "xcode",'',
       ''    "version": 1'',
       ''  }'',
       ''}'']\<close>
  by (simp add: accent_colorset_data_def py_lines_def json_string_format_3f
        newline_indent_def str_int_def str_nat_small digit_char_def)
     (simp add: json_string_def json_escape_char_def)

lemma py_lines_ends_newline: "ls \<noteq> [] \<Longrightarrow> \<exists>t. py_lines ls = t @ [CHR 0x0A]"
  by (induction ls rule: rev_induct) (auto simp: py_lines_def)

lemma parse_format_3f_exact:
  assumes "0 \<le> v" "v \<le> 1" "v * 1000 = real_of_int k"
  shows "parse_decimal (format_3f v) = Some v"
proof -
  have "real_of_int (round_half_even (v * 1000)) / 1000 = v"
    using assms(3) by (simp add: round_half_even_of_int)
  then show ?thesis using parse_format_3f [OF assms(1,2)] by simp
qed

lemma parse_format_3f_near:
  assumes "0 \<le> v" "v \<le> 1"
  shows "\<exists>u. parse_decimal (format_3f v) = Some u \<and> \<bar>u - v\<bar> \<le> 1 / 2000"
proof -
  have "\<bar>real_of_int (round_half_even (v * 1000)) - v * 1000\<bar> \<le> 1 / 2"
    by (rule round_half_even_near)
  then have "\<bar>real_of_int (round_half_even (v * 1000)) / 1000 - v\<bar> \<le> 1 / 2000"
    by (simp add: abs_le_iff field_simps)
  with parse_format_3f [OF assms] show ?thesis by blast
qed

text \<open>
  C5.  \<open>write_accent_colorset\<close>, given no accent colour, writes the document whose first
  \<open>colors\<close> entry has the single member \<open>"idiom": "universal"\<close> and no \<open>"color"\<close>
  member; given an accent colour with components in 0..1 it writes the three components
  formatted to three decimals, and each string read back is the component rounded
  to three decimals: within 0.0005 of it, and the component itself when it has at
  most three decimals (as every configured value has).  In both cases the
  directory of the document and all its ancestors exist afterwards, directories that
  existed stay, and the document ends with a newline.
\<close>

theorem write_accent_colorset_document:
  \<open>files (write_accent_colorset assets None w)
       (assets @ [''AccentColor.colorset'', ''Contents.json''])
     = Some (Text (py_lines
        [''{'',
         ''  "colors": ['',
         ''    {'',
         ''      "idiom": "universal"'',
         ''    }'',
         ''  ],'',
         ''  "info": {'',
         ''    "author": "xcode",'',
         ''    "version": 1'',
         ''  }'',
         ''}''])) \<and>
   (\<exists>colors entry.
      json_member ''colors'' (accent_colorset_data None) = Some colors \<and>
      json_element 0 colors = Some entry \<and>
      json_keys entry = [''idiom''] \<and>
      json_member ''idiom'' entry = Some (JString ''universal'') \<and>
      json_member ''color'' entry = None) \<and>
   (0 \<le> r \<and> r \<le> 1 \<and> 0 \<le> g \<and> g \<le> 1 \<and> 0 \<le> b \<and> b \<le> 1 \<longrightarrow>
      files (write_accent_colorset assets (Some (r, g, b)) w)
          (assets @ [''AccentColor.colorset'', ''Contents.json''])
        = Some (Text (py_lines
           [''{'',
            ''  "colors": ['',
            ''    {'',
            ''      "color": {'',
            ''        "color-space": "srgb",'',
            ''        "components": {'',
            ''          "alpha": "1.000",'',
            ''          "blue": "'' @ format_3f b @ ''",'',
            ''          "green": "'' @ format_3f g @ ''",'',
            ''          "red": "'' @ format_3f r @ ''"'',
            ''        }'',
            ''      },'',
            ''      "idiom": "universal"'',
            ''    }'',
            ''  ],'',
            ''  "info": {'',
            ''    "author": "xcode",'',
            ''    "version": 1'',
            ''  }'',
            ''}''])) \<and>
      (\<forall>v \<in> {r, g, b}.
         parse_decimal (format_3f v) = Some (real_of_int (round_half_even (v * 1000)) / 1000) \<and>
         \<bar>real_of_int (round_half_even (v * 1000)) / 1000 - v\<bar> \<le> 1 / 2000 \<and>
         (\<forall>k. v * 1000 = real_of_int k \<longrightarrow> parse_decimal (format_3f v) = Some v))) \<and>
   set (prefixes (assets @ [''AccentColor.colorset'']))
     \<subseteq> dirs (write_accent_colorset assets accent w) \<and>
   dirs w \<subseteq> dirs (write_accent_colorset assets accent w) \<and>
   (\<exists>t. files (write_accent_colorset assets accent w)
           (assets @ [''AccentColor.colorset'', ''Contents.json''])
         = Some (Text (t @ [CHR 0x0A])))\<close>
proof -
  have rt: "parse_decimal (format_3f v) = Some (real_of_int (round_half_even (v * 1000)) / 1000) \<and>
      \<bar>real_of_int (round_half_even (v * 1000)) / 1000 - v\<bar> \<le> 1 / 2000 \<and>
      (\<forall>k. v * 1000 = real_of_int k \<longrightarrow> parse_decimal (format_3f v) = Some v)"
    if v: "0 \<le> v" "v \<le> 1" for v :: real
  proof (intro conjI allI impI)
    show p: "parse_decimal (format_3f v) = Some (real_of_int (round_half_even (v * 1000)) / 1000)"
      by (rule parse_format_3f [OF v])
    from parse_format_3f_near [OF v] obtain u where
      u: "parse_decimal (format_3f v) = Some u" "\<bar>u - v\<bar> \<le> 1 / 2000" by blast
    from u(1) p have "u = real_of_int (round_half_even (v * 1000)) / 1000" by simp
    with u(2) show "\<bar>real_of_int (round_half_even (v * 1000)) / 1000 - v\<bar> \<le> 1 / 2000" by blast
    fix k assume "v * 1000 = real_of_int k"
    then show "parse_decimal (format_3f v) = Some v" by (rule parse_format_3f_exact [OF v])
  qed
  have c1: \<open>files (write_accent_colorset assets None w)
       (assets @ [''AccentColor.colorset'', ''Contents.json''])
     = Some (Text (py_lines
        [''{'',
         ''  "colors": ['',
         ''    {'',
         ''      "idiom": "universal"'',
         ''    }'',
         ''  ],'',
         ''  "info": {'',
         ''    "author": "xcode",'',
         ''    "version": 1'',
         ''  }'',
         ''}'']))\<close>
    by (simp only: files_write_accent accent_none_text)
  have c2: "\<exists>colors entry.
      json_member ''colors'' (accent_colorset_data None) = Some colors \<and>
      json_element 0 colors = Some entry \<and>
      json_keys entry = [''idiom''] \<and>
      json_member ''idiom'' entry = Some (JString ''universal'') \<and>
      json_member ''color'' entry = None"
    by (simp add: accent_colorset_data_def json_member_def json_element_def json_keys_def)
  have c3: \<open>files (write_accent_colorset assets (Some (r, g, b)) w)
          (assets @ [''AccentColor.colorset'', ''Contents.json''])
        = Some (Text (py_lines
           [''{'',
            ''  "colors": ['',
            ''    {'',
            ''      "color": {'',
            ''        "color-space": "srgb",'',
            ''        "components": {'',
            ''          "alpha": "1.000",'',
            ''          "blue": "'' @ format_3f b @ ''",'',
            ''          "green": "'' @ format_3f g @ ''",'',
            ''          "red": "'' @ format_3f r @ ''"'',
            ''        }'',
            ''      },'',
            ''      "idiom": "universal"'',
            ''    }'',
            ''  ],'',
            ''  "info": {'',
            ''    "author": "xcode",'',
            ''    "version": 1'',
            ''  }'',
            ''}'']))\<close>
    by (simp only: files_write_accent accent_some_text)
  have c4: "\<forall>v \<in> {r, g, b}.
         parse_decimal (format_3f v) = Some (real_of_int (round_half_even (v * 1000)) / 1000) \<and>
         \<bar>real_of_int (round_half_even (v * 1000)) / 1000 - v\<bar> \<le> 1 / 2000 \<and>
         (\<forall>k. v * 1000 = real_of_int k \<longrightarrow> parse_decimal (format_3f v) = Some v)"
    if h: "0 \<le> r \<and> r \<le> 1 \<and> 0 \<le> g \<and> g \<le> 1 \<and> 0 \<le> b \<and> b \<le> 1"
  proof
    fix v assume "v \<in> {r, g, b}"
    with h have "0 \<le> v" "v \<le> 1" by auto
    then show "parse_decimal (format_3f v) = Some (real_of_int (round_half_even (v * 1000)) / 1000) \<and>
         \<bar>real_of_int (round_half_even (v * 1000)) / 1000 - v\<bar> \<le> 1 / 2000 \<and>
         (\<forall>k. v * 1000 = real_of_int k \<longrightarrow> parse_decimal (format_3f v) = Some v)"
      by (rule rt)
  qed
  have c5: "set (prefixes (assets @ [''AccentColor.colorset'']))
     \<subseteq> dirs (write_accent_colorset assets accent w)"
    and c6: "dirs w \<subseteq> dirs (write_accent_colorset assets accent w)"
    by (simp_all only: dirs_write_accent Un_upper1 Un_upper2)
  have c7: "\<exists>t. files (write_accent_colorset assets accent w)
           (assets @ [''AccentColor.colorset'', ''Contents.json''])
         = Some (Text (t @ [CHR 0x0A]))"
    by (simp only: files_write_accent) blast
  from c1 c2 c3 c4 c5 c6 c7 show ?thesis by blast
qed

text \<open>The theorem at the accent colour of the brand dispatcherpvr, in an empty file system.\<close>

theorem write_accent_colorset_document_witness:
  \<open>files (write_accent_colorset [''DispatcherPVR'', ''Assets.xcassets''] (Some (0.263, 0.561, 0.498))
            \<lparr>files = Map.empty, dirs = {}, opened = [], script_file = []\<rparr>)
       [''DispatcherPVR'', ''Assets.xcassets'', ''AccentColor.colorset'', ''Contents.json'']
     = Some (Text (py_lines
           [''{'',
            ''  "colors": ['',
            ''    {'',
            ''      "color": {'',
            ''        "color-space": "srgb",'',
            ''        "components": {'',
            ''          "alpha": "1.000",'',
            ''          "blue": "0.498",'',
            ''          "green": "0.561",'',
            ''          "red": "0.263"'',
            ''        }'',
            ''      },'',
            ''      "idiom": "universal"'',
            ''    }'',
            ''  ],'',
            ''  "info": {'',
            ''    "author": "xcode",'',
            ''    "version": 1'',
            ''  }'',
            ''}''])) \<and>
   parse_decimal (format_3f 0.263) = Some 0.263 \<and>
   parse_decimal (format_3f 0.561) = Some 0.561 \<and>
   parse_decimal (format_3f 0.498) = Some 0.498\<close>
proof -
  have f: "format_3f 0.263 = ''0.263''" "format_3f 0.561 = ''0.561''" "format_3f 0.498 = ''0.498''"
    by (simp_all add: format_3f_def round_half_even_def Let_def digit_char_def str_nat_small)
  have k: "(0.263::real) * 1000 = real_of_int 263" "(0.561::real) * 1000 = real_of_int 561"
    "(0.498::real) * 1000 = real_of_int 498" by simp_all
  have h: "(0::real) \<le> 0.263 \<and> (0.263::real) \<le> 1 \<and> (0::real) \<le> 0.561 \<and> (0.561::real) \<le> 1
           \<and> (0::real) \<le> 0.498 \<and> (0.498::real) \<le> 1" by simp
  note T = write_accent_colorset_document
         [of "[''DispatcherPVR'', ''Assets.xcassets'']"
             "\<lparr>files = Map.empty, dirs = {}, opened = [], script_file = []\<rparr>"
             "0.263" "0.561" "0.498" None,
          THEN conjunct2, THEN conjunct2, THEN conjunct1, rule_format, OF h]
  note T1 = T [THEN conjunct1, unfolded f append.simps]
  note T2 = T [THEN conjunct2]
  have m: "(0.263::real) \<in> {0.263, 0.561, 0.498}" "(0.561::real) \<in> {0.263, 0.561, 0.498}"
    "(0.498::real) \<in> {0.263, 0.561, 0.498}" by simp_all
  have p1: "parse_decimal (format_3f 0.263) = Some 0.263"
    using T2 [rule_format, OF m(1), THEN conjunct2, THEN conjunct2, rule_format, OF k(1)] .
  have p2: "parse_decimal (format_3f 0.561) = Some 0.561"
    using T2 [rule_format, OF m(2), THEN conjunct2, THEN conjunct2, rule_format, OF k(2)] .
  have p3: "parse_decimal (format_3f 0.498) = Some 0.498"
    using T2 [rule_format, OF m(3), THEN conjunct2, THEN conjunct2, rule_format, OF k(3)] .
  from T1 p1 p2 p3 show ?thesis by simp
qed

subsection \<open>What \<open>generate\<close> leaves in the file system: the launch background\<close>

lemma files_save:
  "files (save img p force_rgb w) =
     (files w)(p \<mapsto> Png (if force_rgb \<and> im_mode img \<noteq> ModeRGB then convert_mode ModeRGB img else img))"
  by (simp add: save_def Let_def write_file_def makedirs_def)

lemma files_write_launch_bg:
  "files (write_launch_bg_colorset assets c w) =
     (files w)(assets @ [''LaunchBackground.colorset'', ''Contents.json'']
        \<mapsto> Text (json_dumps 2 0 (launch_bg_colorset_data c) @ [CHR 0x0A]))"
  by (simp add: write_launch_bg_colorset_def Let_def write_file_def makedirs_def)

lemma files_write_accent_upd:
  "files (write_accent_colorset assets a w) =
     (files w)(assets @ [''AccentColor.colorset'', ''Contents.json'']
        \<mapsto> Text (json_dumps 2 0 (accent_colorset_data a) @ [CHR 0x0A]))"
  by (simp add: write_accent_colorset_def Let_def write_file_def makedirs_def)

lemma files_gen_launch_bg:
  "n \<in> {(''LaunchBG.png'', 120), (''LaunchBG@2x.png'', 240), (''LaunchBG@3x.png'', 360)} \<Longrightarrow>
   files (gen_launch_bg is_crt brand assets w) (assets @ [''LaunchBG.imageset'', fst n]) =
     Some (Png (new_image ModeRGB (snd n) (snd n)
        (opaque (if is_crt then CRT_BG else scale255 (launch_bg_rgb brand)))))"
  by (auto simp: gen_launch_bg_def Let_def files_save new_image_def)

lemma files_later_sections:
  "files (gen_colorsets brand assets
           (gen_top_shelf_wide P is_crt brand assets
             (gen_top_shelf P is_crt brand assets
               (gen_tvos_store_icon is_crt brand assets
                 (gen_tvos_icon is_crt brand assets w)))))
         (assets @ [''LaunchBG.imageset'', n])
   = files w (assets @ [''LaunchBG.imageset'', n])"
  by (simp add: gen_colorsets_def gen_top_shelf_wide_def gen_top_shelf_def gen_tvos_store_icon_def
      gen_tvos_icon_def Let_def files_save files_write_launch_bg files_write_accent_upd)

lemma generate_sections:
  assumes "map_of BRANDS k = Some brand"
  shows "generate P k w =
     Inr (gen_colorsets brand (dirname (dirname (script_file w)) @ assets_dir brand)
           (gen_top_shelf_wide P (k = ''dispatcherpvr'') brand (dirname (dirname (script_file w)) @ assets_dir brand)
             (gen_top_shelf P (k = ''dispatcherpvr'') brand (dirname (dirname (script_file w)) @ assets_dir brand)
               (gen_tvos_store_icon (k = ''dispatcherpvr'') brand (dirname (dirname (script_file w)) @ assets_dir brand)
                 (gen_tvos_icon (k = ''dispatcherpvr'') brand (dirname (dirname (script_file w)) @ assets_dir brand)
                   (gen_launch_bg (k = ''dispatcherpvr'') brand (dirname (dirname (script_file w)) @ assets_dir brand)
                     (gen_launch_logo (k = ''dispatcherpvr'') brand (dirname (dirname (script_file w)) @ assets_dir brand)
                       (gen_app_icons (k = ''dispatcherpvr'') brand (dirname (dirname (script_file w)) @ assets_dir brand)
                          w))))))))"
  unfolding generate_def Let_def using assms by simp

lemma generate_launch_bg_file:
  assumes "map_of BRANDS k = Some brand"
    and "n \<in> {(''LaunchBG.png'', 120), (''LaunchBG@2x.png'', 240), (''LaunchBG@3x.png'', 360)}"
  shows "\<exists>w'. generate P k w = Inr w' \<and>
     files w' ((dirname (dirname (script_file w)) @ assets_dir brand) @ [''LaunchBG.imageset'', fst n])
       = Some (Png (new_image ModeRGB (snd n) (snd n)
           (opaque (if k = ''dispatcherpvr'' then CRT_BG else scale255 (launch_bg_rgb brand)))))"
  unfolding generate_sections [OF assms(1)]
proof (rule exI, rule conjI, rule refl)
  show "files (gen_colorsets brand (dirname (dirname (script_file w)) @ assets_dir brand)
           (gen_top_shelf_wide P (k = ''dispatcherpvr'') brand (dirname (dirname (script_file w)) @ assets_dir brand)
             (gen_top_shelf P (k = ''dispatcherpvr'') brand (dirname (dirname (script_file w)) @ assets_dir brand)
               (gen_tvos_store_icon (k = ''dispatcherpvr'') brand (dirname (dirname (script_file w)) @ assets_dir brand)
                 (gen_tvos_icon (k = ''dispatcherpvr'') brand (dirname (dirname (script_file w)) @ assets_dir brand)
                   (gen_launch_bg (k = ''dispatcherpvr'') brand (dirname (dirname (script_file w)) @ assets_dir brand)
                     (gen_launch_logo (k = ''dispatcherpvr'') brand (dirname (dirname (script_file w)) @ assets_dir brand)
                       (gen_app_icons (k = ''dispatcherpvr'') brand (dirname (dirname (script_file w)) @ assets_dir brand)
                          w))))))))
      ((dirname (dirname (script_file w)) @ assets_dir brand) @ [''LaunchBG.imageset'', fst n])
       = Some (Png (new_image ModeRGB (snd n) (snd n)
           (opaque (if k = ''dispatcherpvr'' then CRT_BG else scale255 (launch_bg_rgb brand)))))"
    by (simp only: files_later_sections files_gen_launch_bg [OF assms(2)])
qed

lemma BRANDS_cases:
  "(k, brand) \<in> set BRANDS \<longleftrightarrow>
     (k = ''nexuspvr'' \<and> brand = nexuspvr_brand) \<or> (k = ''dispatcherpvr'' \<and> brand = dispatcherpvr_brand)"
  by (auto simp: BRANDS_def)

lemma map_of_BRANDS:
  "(k, brand) \<in> set BRANDS \<Longrightarrow> map_of BRANDS k = Some brand"
  by (auto simp: BRANDS_def)

lemma root_fresh_world: "dirname (dirname (script_file fresh_world)) = [''repo'']"
  by (simp add: fresh_world_def dirname_def)

text \<open>
  C2 (as amended).  For every brand of \<open>BRANDS\<close>, \<open>generate\<close> succeeds and each of the
  three launch-background files (120, 240 and 360 pixels square) is an RGB image of that
  size in which every pixel has one colour: for dispatcherpvr, the CRT theme, the fixed
  colour \<open>CRT_BG = (14, 31, 21)\<close>; for nexuspvr the brand's launch-background colour
  with its components scaled to 0..255, \<open>(15, 15, 15)\<close>.
\<close>

theorem launch_background_flat_fill:
  assumes "(k, brand) \<in> set BRANDS"
    and "n \<in> {(''LaunchBG.png'', 120), (''LaunchBG@2x.png'', 240), (''LaunchBG@3x.png'', 360)}"
  shows "\<exists>w' img. generate P k w = Inr w' \<and>
     files w' ((dirname (dirname (script_file w)) @ assets_dir brand) @ [''LaunchBG.imageset'', fst n])
       = Some (Png img) \<and>
     im_mode img = ModeRGB \<and> im_width img = snd n \<and> im_height img = snd n \<and>
     (\<forall>x y. in_bounds img x y \<longrightarrow>
        getpixel img x y =
          Some (if k = ''dispatcherpvr'' then opaque CRT_BG else opaque (scale255 (launch_bg_rgb brand)))) \<and>
     opaque CRT_BG = (14, 31, 21, 255) \<and>
     (k = ''nexuspvr'' \<longrightarrow> opaque (scale255 (launch_bg_rgb brand)) = (15, 15, 15, 255))"
proof -
  from generate_launch_bg_file [OF map_of_BRANDS [OF assms(1)] assms(2), of P w]
  obtain w' where w': "generate P k w = Inr w'"
    "files w' ((dirname (dirname (script_file w)) @ assets_dir brand) @ [''LaunchBG.imageset'', fst n])
       = Some (Png (new_image ModeRGB (snd n) (snd n)
           (opaque (if k = ''dispatcherpvr'' then CRT_BG else scale255 (launch_bg_rgb brand)))))"
    by blast
  let ?img = "new_image ModeRGB (snd n) (snd n)
           (opaque (if k = ''dispatcherpvr'' then CRT_BG else scale255 (launch_bg_rgb brand)))"
  have a: "im_mode ?img = ModeRGB \<and> im_width ?img = snd n \<and> im_height ?img = snd n"
    by (simp add: new_image_def)
  have b: "\<forall>x y. in_bounds ?img x y \<longrightarrow>
        getpixel ?img x y =
          Some (if k = ''dispatcherpvr'' then opaque CRT_BG else opaque (scale255 (launch_bg_rgb brand)))"
    by (simp add: getpixel_def new_image_def)
  have c: "opaque CRT_BG = (14, 31, 21, 255)"
    by (simp add: opaque_def CRT_BG_def clip8_def)
  have d: "k = ''nexuspvr'' \<longrightarrow> opaque (scale255 (launch_bg_rgb brand)) = (15, 15, 15, 255)"
    using assms(1)
    by (auto simp: BRANDS_cases nexuspvr_brand_def scale255_def opaque_def py_int_def clip8_def)
  from w' a b c d show ?thesis by blast
qed

text \<open>The theorem at \<open>LaunchBG.png\<close> of nexuspvr, generated into the fresh world.\<close>

theorem launch_background_flat_fill_witness:
  "\<exists>w' img. generate plain_pillow ''nexuspvr'' fresh_world = Inr w' \<and>
     files w' [''repo'', ''NexusPVR'', ''Assets.xcassets'', ''LaunchBG.imageset'', ''LaunchBG.png'']
       = Some (Png img) \<and>
     im_width img = 120 \<and> im_height img = 120 \<and>
     getpixel img 0 0 = Some (15, 15, 15, 255) \<and>
     getpixel img 119 119 = Some (15, 15, 15, 255)"
proof -
  have m: "(''nexuspvr'', nexuspvr_brand) \<in> set BRANDS" by (simp add: BRANDS_def)
  have n: "(''LaunchBG.png'', 120::int) \<in>
     {(''LaunchBG.png'', 120), (''LaunchBG@2x.png'', 240), (''LaunchBG@3x.png'', 360)}" by simp
  from launch_background_flat_fill [OF m n, of plain_pillow fresh_world]
  obtain w' img where h: "generate plain_pillow ''nexuspvr'' fresh_world = Inr w'"
    "files w' ((dirname (dirname (script_file fresh_world)) @ assets_dir nexuspvr_brand)
        @ [''LaunchBG.imageset'', ''LaunchBG.png'']) = Some (Png img)"
    "im_width img = 120" "im_height img = 120"
    "\<forall>x y. in_bounds img x y \<longrightarrow> getpixel img x y = Some (opaque (scale255 (launch_bg_rgb nexuspvr_brand)))"
    "opaque (scale255 (launch_bg_rgb nexuspvr_brand)) = (15, 15, 15, 255)"
    by auto
  have p: "(dirname (dirname (script_file fresh_world)) @ assets_dir nexuspvr_brand)
        @ [''LaunchBG.imageset'', ''LaunchBG.png'']
      = [''repo'', ''NexusPVR'', ''Assets.xcassets'', ''LaunchBG.imageset'', ''LaunchBG.png'']"
    by (simp add: root_fresh_world nexuspvr_brand_def)
  have i: "in_bounds img 0 0" "in_bounds img 119 119" using h(3,4) by (simp_all add: in_bounds_def)
  from h(5) i h(6) have "getpixel img 0 0 = Some (15, 15, 15, 255)"
    "getpixel img 119 119 = Some (15, 15, 15, 255)" by simp_all
  with h(1) h(2) [unfolded p] h(3,4) show ?thesis by blast
qed

text \<open>
  C2 as stated fails for dispatcherpvr: the pixels of its launch background are
  \<open>(14, 31, 21)\<close>, while its configured launch-background colour scaled to 0..255 is
  \<open>(18, 18, 19)\<close>.
\<close>

theorem launch_background_crt_counterexample:
  "(case generate plain_pillow ''dispatcherpvr'' fresh_world of
      Inl e \<Rightarrow> False
    | Inr w' \<Rightarrow>
        (case files w' [''repo'', ''DispatcherPVR'', ''Assets.xcassets'', ''LaunchBG.imageset'',
                        ''LaunchBG.png''] of
           Some (Png img) \<Rightarrow> getpixel img 0 0 = Some (14, 31, 21, 255)
         | _ \<Rightarrow> False)) \<and>
   map_of BRANDS ''dispatcherpvr'' = Some dispatcherpvr_brand \<and>
   opaque (scale255 (launch_bg_rgb dispatcherpvr_brand)) = (18, 18, 19, 255)"
proof -
  have m: "map_of BRANDS ''dispatcherpvr'' = Some dispatcherpvr_brand" by (simp add: BRANDS_def)
  have n: "(''LaunchBG.png'', 120::int) \<in>
     {(''LaunchBG.png'', 120), (''LaunchBG@2x.png'', 240), (''LaunchBG@3x.png'', 360)}" by simp
  from generate_launch_bg_file [OF m n, of plain_pillow fresh_world]
  obtain w' where h: "generate plain_pillow ''dispatcherpvr'' fresh_world = Inr w'"
    "files w' ((dirname (dirname (script_file fresh_world)) @ assets_dir dispatcherpvr_brand)
        @ [''LaunchBG.imageset'', ''LaunchBG.png''])
       = Some (Png (new_image ModeRGB 120 120 (opaque CRT_BG)))"
    by auto
  have p: "(dirname (dirname (script_file fresh_world)) @ assets_dir dispatcherpvr_brand)
        @ [''LaunchBG.imageset'', ''LaunchBG.png'']
      = [''repo'', ''DispatcherPVR'', ''Assets.xcassets'', ''LaunchBG.imageset'', ''LaunchBG.png'']"
    by (simp add: root_fresh_world dispatcherpvr_brand_def)
  have g: "getpixel (new_image ModeRGB 120 120 (opaque CRT_BG)) 0 0 = Some (14, 31, 21, 255)"
    by (simp add: getpixel_def in_bounds_def new_image_def opaque_def CRT_BG_def clip8_def)
  have s: "opaque (scale255 (launch_bg_rgb dispatcherpvr_brand)) = (18, 18, 19, 255)"
    by (simp add: dispatcherpvr_brand_def scale255_def opaque_def py_int_def clip8_def)
  from h [unfolded p] g m s show ?thesis by simp
qed

subsection \<open>The icon cache\<close>

lemma im_mode_draw_shape [simp]: "im_mode (draw_shape img sh fill) = im_mode img"
  by (simp add: draw_shape_def)

lemma im_mode_fold_draw:
  "im_mode (fold (\<lambda>v d. draw_shape d (sh v) fill) vs img) = im_mode img"
  by (induction vs arbitrary: img) simp_all

lemma im_mode_draw_crt_on: "im_mode (draw_crt_on img width height s include_bg) = im_mode img"
  unfolding draw_crt_on_def Let_def
  by (simp add: im_mode_fold_draw)

lemma im_mode_icon_image: "im_mode (icon_image is_crt brand sz) = ModeRGB"
  by (simp add: icon_image_def create_crt_icon_def create_app_icon_def Let_def im_mode_draw_crt_on
      new_image_def convert_mode_def)

lemma save_icon_image:
  "save (icon_image is_crt brand sz) p True w =
     write_file p (Png (icon_image is_crt brand sz)) (makedirs (dirname p) w)"
  by (simp add: save_def Let_def im_mode_icon_image)

lemma icon_loop_Cons:
  "icon_loop is_crt brand icon_dir ((filename, sz) # rest) (cache, rendered, w) =
     (case cache sz of
        None \<Rightarrow>
          icon_loop is_crt brand icon_dir rest
            (cache(sz \<mapsto> icon_image is_crt brand sz), rendered @ [sz],
             save (icon_image is_crt brand sz) (icon_dir @ [filename]) True w)
      | Some img \<Rightarrow>
          icon_loop is_crt brand icon_dir rest
            (cache, rendered, save img (icon_dir @ [filename]) True w))"
  by (cases "cache sz") (simp_all add: icon_image_def Let_def)

lemma icon_loop_world:
  assumes "\<And>sz img. cache sz = Some img \<Longrightarrow> img = icon_image is_crt brand sz"
  shows "snd (snd (icon_loop is_crt brand icon_dir entries (cache, rendered, w))) =
     fold (\<lambda>(filename, sz) w. save (icon_image is_crt brand sz) (icon_dir @ [filename]) True w)
       entries w"
  using assms
proof (induction entries arbitrary: cache rendered w)
  case Nil
  then show ?case by simp
next
  case (Cons e entries)
  obtain filename sz where e: "e = (filename, sz)" by (cases e)
  show ?case
  proof (cases "cache sz")
    case None
    have inv: "img = icon_image is_crt brand s"
      if "(cache(sz \<mapsto> icon_image is_crt brand sz)) s = Some img" for s img
      using that Cons.prems by (auto split: if_splits)
    have "snd (snd (icon_loop is_crt brand icon_dir entries
            (cache(sz \<mapsto> icon_image is_crt brand sz), rendered @ [sz],
             save (icon_image is_crt brand sz) (icon_dir @ [filename]) True w))) =
          fold (\<lambda>(filename, sz) w. save (icon_image is_crt brand sz) (icon_dir @ [filename]) True w)
            entries (save (icon_image is_crt brand sz) (icon_dir @ [filename]) True w)"
      by (rule Cons.IH) (rule inv)
    with None show ?thesis
      unfolding e icon_loop_Cons by simp
  next
    case (Some img)
    then have img: "img = icon_image is_crt brand sz" by (rule Cons.prems)
    have "snd (snd (icon_loop is_crt brand icon_dir entries
            (cache, rendered, save img (icon_dir @ [filename]) True w))) =
          fold (\<lambda>(filename, sz) w. save (icon_image is_crt brand sz) (icon_dir @ [filename]) True w)
            entries (save img (icon_dir @ [filename]) True w)"
      by (rule Cons.IH) (rule Cons.prems)
    with Some img show ?thesis
      unfolding e icon_loop_Cons by simp
  qed
qed

lemma gen_app_icons_eq: "gen_app_icons is_crt brand assets w = gen_app_icons_unmemoized is_crt brand assets w"
  unfolding gen_app_icons_def gen_app_icons_unmemoized_def Let_def
  by (rule icon_loop_world) simp

lemma icon_loop_rendered:
  "fst (snd (icon_loop is_crt brand icon_dir icon_sizes (Map.empty, [], w)))
     = [1024, 512, 256, 128, 64, 32, 16]"
  by (simp add: icon_sizes_def icon_loop_Cons del: icon_loop.simps(2))

lemma icon_loop_cache:
  "fst (icon_loop is_crt brand icon_dir icon_sizes (Map.empty, [], w))
     = [1024 \<mapsto> icon_image is_crt brand 1024, 512 \<mapsto> icon_image is_crt brand 512,
        256 \<mapsto> icon_image is_crt brand 256, 128 \<mapsto> icon_image is_crt brand 128,
        64 \<mapsto> icon_image is_crt brand 64, 32 \<mapsto> icon_image is_crt brand 32,
        16 \<mapsto> icon_image is_crt brand 16]"
  by (simp add: icon_sizes_def icon_loop_Cons del: icon_loop.simps(2))

lemma files_save_icon:
  "files (save (icon_image is_crt brand sz) p True w) = (files w)(p \<mapsto> Png (icon_image is_crt brand sz))"
  by (simp add: save_icon_image write_file_def makedirs_def)

lemma files_unmemoized:
  "\<forall>(filename, sz) \<in> set icon_sizes.
     files (gen_app_icons_unmemoized is_crt brand assets w)
       ((assets @ [''AppIcon.appiconset'']) @ [filename]) = Some (Png (icon_image is_crt brand sz))"
  by (simp add: gen_app_icons_unmemoized_def Let_def icon_sizes_def files_save_icon)

text \<open>
  C4.  For every brand and theme, the icon section with its cache leaves the world that
  rendering every manifest entry afresh leaves.  The loop renders each distinct pixel
  size once (seven renderings for the eleven entries, in the order 1024, 512, 256, 128,
  64, 32, 16); for every manifest entry the cache holds, for the entry's size, the icon
  rendered afresh for that size, and the file written under the entry's name is that
  image, so entries sharing a size are written from the one image.
\<close>

theorem icon_cache_equivalence:
  "gen_app_icons is_crt brand assets w = gen_app_icons_unmemoized is_crt brand assets w \<and>
   fst (snd (icon_loop is_crt brand (assets @ [''AppIcon.appiconset'']) icon_sizes (Map.empty, [], w)))
     = [1024, 512, 256, 128, 64, 32, 16] \<and>
   (\<forall>(filename, sz) \<in> set icon_sizes.
      fst (icon_loop is_crt brand (assets @ [''AppIcon.appiconset'']) icon_sizes (Map.empty, [], w)) sz
        = Some (icon_image is_crt brand sz) \<and>
      files (gen_app_icons is_crt brand assets w) ((assets @ [''AppIcon.appiconset'']) @ [filename])
        = Some (Png (icon_image is_crt brand sz)))"
proof -
  have a: "gen_app_icons is_crt brand assets w = gen_app_icons_unmemoized is_crt brand assets w"
    by (rule gen_app_icons_eq)
  have b: "fst (snd (icon_loop is_crt brand (assets @ [''AppIcon.appiconset'']) icon_sizes (Map.empty, [], w)))
     = [1024, 512, 256, 128, 64, 32, 16]"
    by (rule icon_loop_rendered)
  have c: "\<forall>(filename, sz) \<in> set icon_sizes.
      fst (icon_loop is_crt brand (assets @ [''AppIcon.appiconset'']) icon_sizes (Map.empty, [], w)) sz
        = Some (icon_image is_crt brand sz)"
    unfolding icon_loop_cache by (simp add: icon_sizes_def)
  have d: "\<forall>(filename, sz) \<in> set icon_sizes.
      files (gen_app_icons is_crt brand assets w) ((assets @ [''AppIcon.appiconset'']) @ [filename])
        = Some (Png (icon_image is_crt brand sz))"
    unfolding a by (rule files_unmemoized)
  from a b c d show ?thesis by blast
qed

text \<open>
  The theorem at the two entries of size 1024 of nexuspvr: both files hold the one image
  \<open>create_app_icon 1024\<close>.
\<close>

theorem icon_cache_equivalence_witness:
  "(''AppIcon-1024.png'', 1024) \<in> set icon_sizes \<and> (''AppIcon-512@2x.png'', 1024) \<in> set icon_sizes \<and>
   files (gen_app_icons False nexuspvr_brand [''repo'', ''NexusPVR'', ''Assets.xcassets''] fresh_world)
     [''repo'', ''NexusPVR'', ''Assets.xcassets'', ''AppIcon.appiconset'', ''AppIcon-1024.png'']
     = Some (Png (create_app_icon 1024 nexuspvr_brand)) \<and>
   files (gen_app_icons False nexuspvr_brand [''repo'', ''NexusPVR'', ''Assets.xcassets''] fresh_world)
     [''repo'', ''NexusPVR'', ''Assets.xcassets'', ''AppIcon.appiconset'', ''AppIcon-512@2x.png'']
     = Some (Png (create_app_icon 1024 nexuspvr_brand))"
proof -
  have m: "(''AppIcon-1024.png'', 1024) \<in> set icon_sizes"
    "(''AppIcon-512@2x.png'', 1024) \<in> set icon_sizes"
    by (simp_all add: icon_sizes_def)
  note T = icon_cache_equivalence
      [of False nexuspvr_brand "[''repo'', ''NexusPVR'', ''Assets.xcassets'']" fresh_world,
       THEN conjunct2, THEN conjunct2]
  from bspec [OF T m(1)] bspec [OF T m(2)] m show ?thesis
    by (simp add: icon_image_def)
qed

subsection \<open>The app icon, pixel by pixel\<close>




















subsection \<open>One run of \<open>generate\<close> writes a fixed table\<close>

lemma save_as_write:
  "save img p force_rgb w = write_file p (saved force_rgb img) (makedirs (dirname p) w)"
  by (simp add: save_def saved_def Let_def)

lemma write_all_Nil: "write_all base [] w = w"
  by (simp add: write_all_def)

lemma write_all_Cons:
  "write_all base ((rel, c) # table) w =
     write_all base table (write_file (base @ rel) c (makedirs (dirname (base @ rel)) w))"
  by (simp add: write_all_def)

lemma write_all_append:
  "write_all base (t1 @ t2) w = write_all base t2 (write_all base t1 w)"
  by (simp add: write_all_def)

lemma generate_table:
  assumes "map_of BRANDS k = Some brand"
  shows "generate P k w =
     Inr (write_all (dirname (dirname (script_file w)))
            (asset_table P (k = ''dispatcherpvr'') brand) w)"
  unfolding generate_sections [OF assms] gen_app_icons_eq
  by (simp add: asset_table_def Let_def write_all_Nil write_all_Cons write_all_append
      gen_app_icons_unmemoized_def gen_launch_logo_def gen_launch_bg_def gen_tvos_icon_def
      gen_tvos_store_icon_def gen_top_shelf_def gen_top_shelf_wide_def gen_colorsets_def
      shelf_fn_def icon_sizes_def save_as_write write_accent_colorset_def
      write_launch_bg_colorset_def)

lemma write_all_closed:
  "write_all base table w =
     w\<lparr>files := files w ++ table_files base table, dirs := dirs w \<union> table_dirs base table\<rparr>"
proof (induction table arbitrary: w)
  case Nil
  then show ?case by (simp add: write_all_Nil table_files_def table_dirs_def)
next
  case (Cons e table)
  obtain rel c where e: "e = (rel, c)" by (cases e)
  have f: "table_files base ((rel, c) # table) = [base @ rel \<mapsto> c] ++ table_files base table"
    by (simp add: table_files_def)
  have d: "table_dirs base ((rel, c) # table) =
      set (prefixes (dirname (base @ rel))) \<union> table_dirs base table"
    by (simp add: table_dirs_def)
  show ?case
    unfolding e write_all_Cons Cons.IH f d
    by (simp add: write_file_def makedirs_def Un_assoc map_add_upd_left [symmetric] del: map_add_upd_left)
qed

lemma write_all_sel:
  "files (write_all base table w) = files w ++ table_files base table"
  "dirs (write_all base table w) = dirs w \<union> table_dirs base table"
  "opened (write_all base table w) = opened w"
  "script_file (write_all base table w) = script_file w"
  by (simp_all add: write_all_closed)

lemma map_add_twice: "(m ++ t) ++ t = m ++ t"
  by (rule ext) (simp add: map_add_def split: option.split)

lemma write_all_idem: "write_all base table (write_all base table w) = write_all base table w"
  by (simp add: write_all_closed Un_assoc map_add_twice del: map_add_assoc)

lemma table_files_dom:
  "dom (table_files base table) = (\<lambda>rel. base @ rel) ` fst ` set table"
  by (auto simp: table_files_def dom_map_of_conv_image_fst image_iff split: prod.splits) force+

text \<open>
  C7.  For every brand of \<open>BRANDS\<close>, every implementation of the Pillow filters and every
  initial world, \<open>generate\<close> succeeds and leaves the initial world overwritten with
  the table \<open>asset_table\<close>, which is a function of the brand parameters alone (each
  image a composer applied to the brand and a size), laid under the repository root;
  it opens no file.  Hence a second run from the world the first run left ends in that
  same world, and runs from any two worlds with the script in the same place leave
  identical contents in every file of the table.
\<close>

theorem generate_deterministic:
  assumes "(k, brand) \<in> set BRANDS"
  shows "\<exists>w'. generate P k w = Inr w' \<and>
      files w' = files w ++ table_files (dirname (dirname (script_file w)))
                              (asset_table P (k = ''dispatcherpvr'') brand) \<and>
      dirs w' = dirs w \<union> table_dirs (dirname (dirname (script_file w)))
                              (asset_table P (k = ''dispatcherpvr'') brand) \<and>
      opened w' = opened w \<and> script_file w' = script_file w \<and>
      generate P k w' = Inr w' \<and>
      (\<forall>v. script_file v = script_file w \<longrightarrow>
         (\<exists>v'. generate P k v = Inr v' \<and>
            (\<forall>rel \<in> fst ` set (asset_table P (k = ''dispatcherpvr'') brand).
               files v' (dirname (dirname (script_file w)) @ rel)
                 = files w' (dirname (dirname (script_file w)) @ rel))))"
proof -
  let ?T = "asset_table P (k = ''dispatcherpvr'') brand"
  let ?b = "dirname (dirname (script_file w))"
  let ?w' = "write_all ?b ?T w"
  have m: "map_of BRANDS k = Some brand" using assms by (rule map_of_BRANDS)
  have g: "generate P k v = Inr (write_all (dirname (dirname (script_file v))) ?T v)" for v :: world
    by (rule generate_table [OF m])
  have again: "generate P k ?w' = Inr ?w'"
    unfolding g write_all_sel by (simp add: write_all_idem)
  have same: "files (write_all ?b ?T v) (?b @ rel) = files ?w' (?b @ rel)"
    if "rel \<in> fst ` set ?T" for v :: world and rel
  proof -
    from that have "?b @ rel \<in> dom (table_files ?b ?T)"
      unfolding table_files_dom by blast
    then show ?thesis by (auto simp: write_all_sel map_add_dom_app_simps)
  qed
  have other: "\<forall>v. script_file v = script_file w \<longrightarrow>
         (\<exists>v'. generate P k v = Inr v' \<and>
            (\<forall>rel \<in> fst ` set ?T. files v' (?b @ rel) = files ?w' (?b @ rel)))"
  proof (intro allI impI)
    fix v :: world assume v: "script_file v = script_file w"
    have "generate P k v = Inr (write_all ?b ?T v)" unfolding g v by (rule refl)
    with same show "\<exists>v'. generate P k v = Inr v' \<and>
            (\<forall>rel \<in> fst ` set ?T. files v' (?b @ rel) = files ?w' (?b @ rel))"
      by blast
  qed
  from g [of w] again other write_all_sel [of ?b ?T w] show ?thesis by blast
qed

text \<open>The theorem for nexuspvr in the fresh world: the second run changes nothing.\<close>

theorem generate_deterministic_witness:
  "\<exists>w'. generate plain_pillow ''nexuspvr'' fresh_world = Inr w' \<and>
         generate plain_pillow ''nexuspvr'' w' = Inr w' \<and>
         opened w' = [] \<and>
         script_file w' = [''repo'', ''scripts'', ''generate_assets.py'']"
proof -
  have m: "(''nexuspvr'', nexuspvr_brand) \<in> set BRANDS" by (simp add: BRANDS_def)
  from generate_deterministic [OF m, of plain_pillow fresh_world]
  obtain w' where "generate plain_pillow ''nexuspvr'' fresh_world = Inr w'"
    "opened w' = opened fresh_world" "script_file w' = script_file fresh_world"
    "generate plain_pillow ''nexuspvr'' w' = Inr w'" by blast
  then show ?thesis by (auto simp: fresh_world_def)
qed

subsection \<open>The command line\<close>

lemma generate_ok:
  assumes "(k, brand) \<in> set BRANDS"
  shows "\<exists>w'. generate P k w = Inr w'"
  using generate_table [OF map_of_BRANDS [OF assms]] by blast

lemma generate_all_BRANDS: "\<exists>w'. generate_all P (map fst BRANDS) w = (0, w')"
proof -
  obtain w1 where w1: "generate P ''nexuspvr'' w = Inr w1"
    using generate_ok [of "''nexuspvr''" nexuspvr_brand] by (auto simp: BRANDS_def)
  obtain w2 where w2: "generate P ''dispatcherpvr'' w1 = Inr w2"
    using generate_ok [of "''dispatcherpvr''" dispatcherpvr_brand] by (auto simp: BRANDS_def)
  show ?thesis by (simp add: BRANDS_def w1 w2)
qed

lemma main_accepts:
  assumes "arg \<in> {''nexuspvr'', ''dispatcherpvr'', ''all''}"
  shows "fst (main P arg w) = 0"
proof -
  consider "arg = ''all''" | "arg = ''nexuspvr''" | "arg = ''dispatcherpvr''" using assms by blast
  then show ?thesis
  proof cases
    case 1
    obtain w' where "generate_all P (map fst BRANDS) w = (0, w')"
      using generate_all_BRANDS by blast
    with 1 show ?thesis by (simp add: main_def parse_args_def choices_def)
  next
    case 2
    obtain w' where "generate P ''nexuspvr'' w = Inr w'"
      using generate_ok [of "''nexuspvr''" nexuspvr_brand] by (auto simp: BRANDS_def)
    with 2 show ?thesis by (simp add: main_def parse_args_def choices_def)
  next
    case 3
    obtain w' where "generate P ''dispatcherpvr'' w = Inr w'"
      using generate_ok [of "''dispatcherpvr''" dispatcherpvr_brand] by (auto simp: BRANDS_def)
    with 3 show ?thesis by (simp add: main_def parse_args_def choices_def)
  qed
qed

lemma main_rejects:
  assumes "arg \<notin> {''nexuspvr'', ''dispatcherpvr'', ''all''}"
  shows "main P arg w = (2, w)"
  using assms by (simp add: main_def parse_args_def choices_def)

text \<open>
  C8.  When the positional brand argument is none of \<open>nexuspvr\<close>, \<open>dispatcherpvr\<close> and
  \<open>all\<close>, the parser rejects it (the usage error, status 2) and \<open>main\<close> ends with the
  non-zero status 2 in the world it started in: no asset is generated.  The values the
  parser accepts are exactly those three, and exactly for them \<open>main\<close> ends with
  status 0.
\<close>

theorem main_rejects_unknown_brand:
  assumes "arg \<notin> {''nexuspvr'', ''dispatcherpvr'', ''all''}"
  shows "parse_args arg = Inl 2 \<and> main P arg w = (2, w) \<and>
         (\<forall>a. (\<exists>b. parse_args a = Inr b) = (a \<in> {''nexuspvr'', ''dispatcherpvr'', ''all''})) \<and>
         (\<forall>a v. (fst (main P a v) = 0) = (a \<in> {''nexuspvr'', ''dispatcherpvr'', ''all''}))"
proof -
  have 1: "parse_args arg = Inl 2" using assms by (simp add: parse_args_def choices_def)
  have 2: "main P arg w = (2, w)" using assms by (rule main_rejects)
  have 3: "\<forall>a. (\<exists>b. parse_args a = Inr b) = (a \<in> {''nexuspvr'', ''dispatcherpvr'', ''all''})"
    by (auto simp: parse_args_def choices_def)
  have 4: "(fst (main P a v) = 0) = (a \<in> {''nexuspvr'', ''dispatcherpvr'', ''all''})" for a v
  proof (cases "a \<in> {''nexuspvr'', ''dispatcherpvr'', ''all''}")
    case True
    then show ?thesis using main_accepts [of a P v] by simp
  next
    case False
    then show ?thesis using main_rejects [of a P v] by simp
  qed
  from 1 2 3 4 show ?thesis by blast
qed

text \<open>The theorem at the argument \<open>vhs\<close> in the fresh world.\<close>

theorem main_rejects_unknown_brand_witness:
  "''vhs'' \<notin> {''nexuspvr'', ''dispatcherpvr'', ''all''} \<and>
   parse_args ''vhs'' = Inl 2 \<and> main plain_pillow ''vhs'' fresh_world = (2, fresh_world)"
proof -
  have h: "''vhs'' \<notin> {''nexuspvr'', ''dispatcherpvr'', ''all''}" by simp
  from main_rejects_unknown_brand [OF h, of plain_pillow fresh_world] h show ?thesis by blast
qed

subsection \<open>The VHS source image is never opened\<close>

lemma load_vhs_missing:
  "files w (VHS_SOURCE w) = None \<Longrightarrow> load_vhs_source w = Inl FileNotFoundError"
  by (simp add: load_vhs_source_def)

lemma load_vhs_logged:
  "load_vhs_source w = Inr (img, w1) \<Longrightarrow> opened w1 = opened w @ [VHS_SOURCE w]"
  by (auto simp: load_vhs_source_def split: option.splits content.splits)

lemma place_vhs_missing:
  "files w (VHS_SOURCE w) = None \<Longrightarrow>
   place_vhs_on_canvas P w cw ch fr tri = Inl FileNotFoundError"
  by (simp add: place_vhs_on_canvas_def load_vhs_missing)

lemma place_vhs_logged:
  assumes "place_vhs_on_canvas P w cw ch fr tri = Inr (img, w1)"
  shows "opened w1 = opened w @ [VHS_SOURCE w]"
proof (cases "load_vhs_source w")
  case (Inl e)
  with assms show ?thesis by (simp add: place_vhs_on_canvas_def)
next
  case (Inr r)
  obtain vhs w0 where r: "r = (vhs, w0)" by (cases r)
  from assms Inr r have "w1 = w0"
    by (auto simp: place_vhs_on_canvas_def Let_def split: if_splits)
  with load_vhs_logged [of w vhs w0] Inr r show ?thesis by simp
qed

lemma vhs_composers_missing:
  assumes "files w (VHS_SOURCE w) = None"
  shows "create_vhs_icon P w sz brand = Inl FileNotFoundError"
    and "create_vhs_tvos_front P w wd h brand = Inl FileNotFoundError"
    and "create_vhs_launch_logo P w sz brand = Inl FileNotFoundError"
    and "create_vhs_shelf_image P w wd h brand = Inl FileNotFoundError"
  by (simp_all add: create_vhs_icon_def create_vhs_tvos_front_def create_vhs_launch_logo_def
      create_vhs_shelf_image_def Let_def place_vhs_missing [OF assms])

lemma vhs_composers_logged:
  "create_vhs_icon P w sz brand = Inr (img, w1) \<Longrightarrow> opened w1 = opened w @ [VHS_SOURCE w]"
  "create_vhs_tvos_front P w wd h brand = Inr (img, w1) \<Longrightarrow> opened w1 = opened w @ [VHS_SOURCE w]"
  "create_vhs_launch_logo P w sz brand = Inr (img, w1) \<Longrightarrow> opened w1 = opened w @ [VHS_SOURCE w]"
  "create_vhs_shelf_image P w wd h brand = Inr (img, w1) \<Longrightarrow> opened w1 = opened w @ [VHS_SOURCE w]"
  by (auto simp: create_vhs_icon_def create_vhs_tvos_front_def create_vhs_launch_logo_def
      create_vhs_shelf_image_def Let_def split: sum.splits dest: place_vhs_logged)

lemma asset_table_depth:
  assumes "(k, brand) \<in> set BRANDS" and "(rel, c) \<in> set (asset_table P is_crt brand)"
  shows "4 \<le> length rel"
  using assms
  by (auto simp: BRANDS_def asset_table_def Let_def nexuspvr_brand_def dispatcherpvr_brand_def
      icon_sizes_def)

lemma vhs_not_in_table:
  assumes "(k, brand) \<in> set BRANDS"
  shows "VHS_SOURCE w \<notin> dom (table_files (dirname (dirname (script_file w))) (asset_table P is_crt brand))"
proof
  assume "VHS_SOURCE w \<in> dom (table_files (dirname (dirname (script_file w))) (asset_table P is_crt brand))"
  then obtain rel c where rc: "(rel, c) \<in> set (asset_table P is_crt brand)"
    and eq: "VHS_SOURCE w = dirname (dirname (script_file w)) @ rel"
    unfolding table_files_dom by auto
  from asset_table_depth [OF assms rc] have "4 \<le> length rel" .
  moreover have "length (VHS_SOURCE w) \<le> length (dirname (dirname (script_file w))) + 2"
    by (simp add: VHS_SOURCE_def SCRIPT_DIR_def dirname_def)
  moreover have "length (VHS_SOURCE w) = length (dirname (dirname (script_file w))) + length rel"
    by (simp only: eq length_append)
  ultimately show False by linarith
qed

lemma map_add_upd_outside:
  "q \<notin> dom t \<Longrightarrow> (m(q := c)) ++ t = (m ++ t)(q := c)"
  by (rule ext) (auto simp: map_add_def split: option.split)

lemma write_all_frame:
  assumes "q \<notin> dom (table_files base table)"
  shows "write_all base table (w\<lparr>files := (files w)(q := c)\<rparr>) =
         (write_all base table w)\<lparr>files := (files (write_all base table w))(q := c)\<rparr>"
  by (simp add: write_all_closed map_add_upd_outside [OF assms])

text \<open>
  C10.  For every brand of \<open>BRANDS\<close> and every initial world, \<open>generate\<close> succeeds, what
  it writes is \<open>asset_table\<close>, whose images are those of the gradient composers or, for
  dispatcherpvr, of the CRT composers, and the log of files opened for reading is left
  as it was: the VHS source image is never opened.  The outcome does not depend on that
  file: with the file absent, unreadable or holding any image, the run ends in the same
  world up to that file.  Every VHS composer, in contrast, fails with FileNotFoundError
  when the file is absent and logs the opening of the file when it succeeds, so none of
  them is invoked by \<open>generate\<close>.
\<close>

theorem generate_never_opens_vhs_source:
  assumes "(k, brand) \<in> set BRANDS"
  shows "(\<exists>w'. generate P k w = Inr w' \<and> opened w' = opened w \<and>
            w' = write_all (dirname (dirname (script_file w)))
                   (asset_table P (k = ''dispatcherpvr'') brand) w \<and>
            (\<forall>c. generate P k (w\<lparr>files := (files w)(VHS_SOURCE w := c)\<rparr>)
                   = Inr (w'\<lparr>files := (files w')(VHS_SOURCE w := c)\<rparr>))) \<and>
         (\<forall>v. files v (VHS_SOURCE v) = None \<longrightarrow>
            create_vhs_icon P v sz b = Inl FileNotFoundError \<and>
            create_vhs_tvos_front P v wd h b = Inl FileNotFoundError \<and>
            create_vhs_launch_logo P v sz b = Inl FileNotFoundError \<and>
            create_vhs_shelf_image P v wd h b = Inl FileNotFoundError) \<and>
         (\<forall>v img v1.
            create_vhs_icon P v sz b = Inr (img, v1) \<or>
            create_vhs_tvos_front P v wd h b = Inr (img, v1) \<or>
            create_vhs_launch_logo P v sz b = Inr (img, v1) \<or>
            create_vhs_shelf_image P v wd h b = Inr (img, v1) \<longrightarrow>
            opened v1 = opened v @ [VHS_SOURCE v])"
proof -
  let ?T = "asset_table P (k = ''dispatcherpvr'') brand"
  let ?b = "dirname (dirname (script_file w))"
  let ?w' = "write_all ?b ?T w"
  have m: "map_of BRANDS k = Some brand" using assms by (rule map_of_BRANDS)
  have g: "generate P k v = Inr (write_all (dirname (dirname (script_file v))) ?T v)" for v :: world
    by (rule generate_table [OF m])
  have o: "opened ?w' = opened w" by (simp add: write_all_sel)
  have q: "VHS_SOURCE w \<notin> dom (table_files ?b ?T)"
    by (rule vhs_not_in_table [OF assms])
  have f: "generate P k (w\<lparr>files := (files w)(VHS_SOURCE w := c)\<rparr>)
             = Inr (?w'\<lparr>files := (files ?w')(VHS_SOURCE w := c)\<rparr>)" for c
    unfolding g by (simp add: write_all_frame [OF q])
  have a: "\<exists>w'. generate P k w = Inr w' \<and> opened w' = opened w \<and> w' = ?w' \<and>
            (\<forall>c. generate P k (w\<lparr>files := (files w)(VHS_SOURCE w := c)\<rparr>)
                   = Inr (w'\<lparr>files := (files w')(VHS_SOURCE w := c)\<rparr>))"
    using g [of w] o f by blast
  have b: "\<forall>v. files v (VHS_SOURCE v) = None \<longrightarrow>
            create_vhs_icon P v sz b = Inl FileNotFoundError \<and>
            create_vhs_tvos_front P v wd h b = Inl FileNotFoundError \<and>
            create_vhs_launch_logo P v sz b = Inl FileNotFoundError \<and>
            create_vhs_shelf_image P v wd h b = Inl FileNotFoundError"
    using vhs_composers_missing by blast
  have c: "\<forall>v img v1.
            create_vhs_icon P v sz b = Inr (img, v1) \<or>
            create_vhs_tvos_front P v wd h b = Inr (img, v1) \<or>
            create_vhs_launch_logo P v sz b = Inr (img, v1) \<or>
            create_vhs_shelf_image P v wd h b = Inr (img, v1) \<longrightarrow>
            opened v1 = opened v @ [VHS_SOURCE v]"
  proof (intro allI impI)
    fix v :: world and img v1
    assume "create_vhs_icon P v sz b = Inr (img, v1) \<or>
            create_vhs_tvos_front P v wd h b = Inr (img, v1) \<or>
            create_vhs_launch_logo P v sz b = Inr (img, v1) \<or>
            create_vhs_shelf_image P v wd h b = Inr (img, v1)"
    then show "opened v1 = opened v @ [VHS_SOURCE v]"
      by (elim disjE) (erule vhs_composers_logged)+
  qed
  from a b c show ?thesis by blast
qed

text \<open>
  The theorem for dispatcherpvr in the fresh world, where the VHS source image does not
  exist: \<open>generate\<close> succeeds and opens nothing, while \<open>create_vhs_icon\<close> fails.
\<close>

theorem generate_never_opens_vhs_source_witness:
  "files fresh_world (VHS_SOURCE fresh_world) = None \<and>
   (\<exists>w'. generate plain_pillow ''dispatcherpvr'' fresh_world = Inr w' \<and> opened w' = []) \<and>
   create_vhs_icon plain_pillow fresh_world 1024 dispatcherpvr_brand = Inl FileNotFoundError"
proof -
  have m: "(''dispatcherpvr'', dispatcherpvr_brand) \<in> set BRANDS" by (simp add: BRANDS_def)
  have n: "files fresh_world (VHS_SOURCE fresh_world) = None" by (simp add: fresh_world_def)
  note T = generate_never_opens_vhs_source
             [OF m, of plain_pillow fresh_world 1024 dispatcherpvr_brand 400 240]
  from T [THEN conjunct1] obtain w' where
    "generate plain_pillow ''dispatcherpvr'' fresh_world = Inr w'" "opened w' = opened fresh_world"
    by blast
  then have a: "\<exists>w'. generate plain_pillow ''dispatcherpvr'' fresh_world = Inr w' \<and> opened w' = []"
    by (auto simp: fresh_world_def)
  from T [THEN conjunct2, THEN conjunct1] n
  have "create_vhs_icon plain_pillow fresh_world 1024 dispatcherpvr_brand = Inl FileNotFoundError"
    by blast
  with n a show ?thesis by blast
qed

end
